theory Spec2Isabelle
  imports Main "HOL-Library.AList" "HOL-Library.Char_ord" "HOL-Library.List_Lexorder"
begin

section \<open>Outcomes of the Go functions\<close>

text \<open>
  The Go functions of \<^verbatim>\<open>rpc.go\<close> end in one of three ways: they return normally, they
  return a non-nil \<^verbatim>\<open>error\<close>, or they panic (a failed \<^verbatim>\<open>contract.Assertf\<close>, a method call on
  a nil interface). All three are values of the model.
\<close>

datatype error =
    Rejected string
  | AwaitingInputProperty string error
  | CannotMarshalOutput string
  | CannotMarshalInputAs string
  | InvalidAsset
  | InvalidArchive
  | ExpectedStringMapKeys
  | UnrecognizedInputType string
  | NotStructOrMap string
  | FailedToParseProviderVersion string
  | ExpectedAssetVariant
  | ConstructorFailed string
  | ExistingRegistration string
  | ExpectedGot string string
  | MapKeysMustBeStrings
  | CannotUnmarshalIntoInterface string
  | CannotUnmarshalIntoType string

datatype 'a outcome = Panicked string | Failed error | Returned 'a

section \<open>Resources and the dependency aggregator\<close>

type_synonym URN = string
type_synonym ID = string

text \<open>
  What awaiting a \<^verbatim>\<open>URNOutput\<close> or an \<^verbatim>\<open>IDOutput\<close> gives: the rejection (the message of
  the error the output was rejected with, returned as \<^const>\<open>Rejected\<close>), or the value with its
  \<^verbatim>\<open>known\<close> and \<^verbatim>\<open>secret\<close> flags.
\<close>

datatype 'a awaited = Rejects string | Resolves 'a bool bool

datatype rkind = Custom | LocalComponent | RemoteComponent | DependencyOnly | Rehydrated

text \<open>
  A \<^verbatim>\<open>Resource\<close> interface value is nil or a pointer to a resource state. The address stands
  for the pointer: Go's \<^verbatim>\<open>res == from\<close> on two resources compares pointers.
\<close>

datatype Resource =
    NilResource
  | Res (addr: nat) (kind: rkind) (URN: "URN awaited") (ID: "ID awaited")
        (getChildren: "Resource list")

fun isCustomResource :: "Resource \<Rightarrow> bool" where
  "isCustomResource NilResource = False"
| "isCustomResource (Res a k u i cs) = (k = Custom)"

text \<open>
  Modelled from the spec: \<^verbatim>\<open>keepDependency\<close> is a method of the resource states, declared
  outside the given sources. The spec gives its value for each variant: true for
  RemoteComponent, DependencyOnly and Rehydrated, false for LocalComponent; the comment at
  its call in \<^verbatim>\<open>addDependency\<close> says the same. The code never calls it on a custom resource.
\<close>

fun keepDependency :: "rkind \<Rightarrow> bool" where
  "keepDependency RemoteComponent = True"
| "keepDependency DependencyOnly = True"
| "keepDependency Rehydrated = True"
| "keepDependency LocalComponent = False"
| "keepDependency Custom = True"

fun sameResource :: "Resource \<Rightarrow> Resource \<Rightarrow> bool" where
  "sameResource NilResource NilResource = True"
| "sameResource (Res a k u i cs) (Res a' k' u' i' cs') = (a = a')"
| "sameResource _ _ = False"

text \<open>
  A Go \<^verbatim>\<open>map[URN]Resource\<close> is an association list with distinct keys; \<^verbatim>\<open>deps[urn] = res\<close> is
  \<^const>\<open>AList.update\<close>. The order of the list is not observable in Go, and no claim below
  speaks about it.
\<close>

type_synonym depmap = "(URN \<times> Resource) list"

fun awaitURN :: "Resource \<Rightarrow> (URN \<times> bool \<times> bool) outcome" where
  "awaitURN NilResource = Panicked ''nil pointer dereference''"
| "awaitURN (Res a k (Rejects e) i cs) = Failed (Rejected e)"
| "awaitURN (Res a k (Resolves u known secret) i cs) = Returned (u, known, secret)"

definition recordURN :: "depmap \<Rightarrow> Resource \<Rightarrow> depmap outcome" where
  "recordURN deps res =
     (case awaitURN res of
        Panicked m \<Rightarrow> Panicked m
      | Failed e \<Rightarrow> Failed e
      | Returned (urn, _, _) \<Rightarrow> Returned (AList.update urn res deps))"

fun addDependency :: "depmap \<Rightarrow> Resource \<Rightarrow> Resource \<Rightarrow> depmap outcome"
  and addChildren :: "depmap \<Rightarrow> Resource list \<Rightarrow> Resource \<Rightarrow> depmap outcome" where
  "addDependency deps NilResource from =
     (if sameResource NilResource from then Returned deps
      else Panicked ''nil pointer dereference'')"
| "addDependency deps (Res a k u i cs) from =
     (if k \<noteq> Custom then
        if sameResource (Res a k u i cs) from then Returned deps
        else (case addChildren deps cs from of
                Panicked m \<Rightarrow> Panicked m
              | Failed e \<Rightarrow> Failed e
              | Returned deps' \<Rightarrow>
                  if \<not> keepDependency k then Returned deps'
                  else recordURN deps' (Res a k u i cs))
      else recordURN deps (Res a k u i cs))"
| "addChildren deps [] from = Returned deps"
| "addChildren deps (child # rest) from =
     (case addDependency deps child from of
        Panicked m \<Rightarrow> Panicked m
      | Failed e \<Rightarrow> Failed e
      | Returned deps' \<Rightarrow> addChildren deps' rest from)"

text \<open>
  \<^verbatim>\<open>expandDependencies\<close> runs the same loop over the roots, from an empty map and with
  \<^verbatim>\<open>from = nil\<close>.
\<close>

definition expandDependencies :: "Resource list \<Rightarrow> depmap outcome" where
  "expandDependencies deps = addChildren [] deps NilResource"

text \<open>
  The rule of the specification, in its own words: the resources whose URN a resource
  contributes.
\<close>

fun contributes :: "Resource \<Rightarrow> Resource \<Rightarrow> Resource list"
  and contributesAll :: "Resource \<Rightarrow> Resource list \<Rightarrow> Resource list" where
  "contributes from NilResource = []"
| "contributes from (Res a k u i cs) =
     (if k = Custom then [Res a k u i cs]
      else if sameResource (Res a k u i cs) from then []
      else contributesAll from cs @ (if keepDependency k then [Res a k u i cs] else []))"
| "contributesAll from [] = []"
| "contributesAll from (r # rs) = contributes from r @ contributesAll from rs"

fun urnResolves :: "Resource \<Rightarrow> bool" where
  "urnResolves (Res a k (Resolves u known secret) i cs) = True"
| "urnResolves _ = False"

fun urnOf :: "Resource \<Rightarrow> URN" where
  "urnOf (Res a k (Resolves u known secret) i cs) = u"
| "urnOf _ = []"


text \<open>Recording the URNs of a list of resources in a map, in order.\<close>

definition recordAll :: "depmap \<Rightarrow> Resource list \<Rightarrow> depmap" where
  "recordAll deps rs = foldl (\<lambda>d r. AList.update (urnOf r) r d) deps rs"


section \<open>Wire values\<close>

text \<open>
  A \<^verbatim>\<open>float64\<close> is kept as the conversion that produced it (\<^verbatim>\<open>float64(rv.Int())\<close>,
  \<^verbatim>\<open>float64(rv.Uint())\<close>) or as its bit pattern; no claim below computes with numbers.
\<close>

datatype float64 = Float64OfInt int | Float64OfUint nat | Float64Bits nat

datatype RefID = NoID | HasID ID

text \<open>
  \<^verbatim>\<open>resource.PropertyValue\<close>, one constructor for each variant. A \<^verbatim>\<open>PropertyMap\<close> is an
  association list with distinct keys, \<^verbatim>\<open>obj[k] = v\<close> is \<^const>\<open>AList.update\<close>.
\<close>

datatype PropertyValue =
    Null
  | BoolProperty bool
  | NumberProperty float64
  | StringProperty string
  | ArrayProperty "PropertyValue list"
  | ObjectProperty "(string \<times> PropertyValue) list"
  | AssetProperty (assetPath: string) (assetText: string) (assetURI: string)
  | ArchiveProperty "(string \<times> PropertyValue) list option" string string
  | SecretProperty PropertyValue
  | OutputProperty PropertyValue bool bool "URN list"
  | Computed
  | ResourceReferenceProperty URN RefID string

type_synonym PropertyMap = "(string \<times> PropertyValue) list"

fun IsNull :: "PropertyValue \<Rightarrow> bool" where
  "IsNull Null = True"
| "IsNull _ = False"

text \<open>
  Modelled from the spec: \<^verbatim>\<open>MakeCustomResourceReference\<close>, \<^verbatim>\<open>MakeComponentResourceReference\<close>
  and \<^verbatim>\<open>IDString\<close> belong to the \<^verbatim>\<open>resource\<close> package, outside the given sources. The spec
  describes the wire value as ResourceReference{URN, optional ID, package version}: a custom
  resource's reference carries its ID, a component's carries none.
\<close>

definition MakeCustomResourceReference :: "URN \<Rightarrow> ID \<Rightarrow> string \<Rightarrow> PropertyValue" where
  "MakeCustomResourceReference urn rid packageVersion =
     ResourceReferenceProperty urn (HasID rid) packageVersion"

definition MakeComponentResourceReference :: "URN \<Rightarrow> string \<Rightarrow> PropertyValue" where
  "MakeComponentResourceReference urn packageVersion =
     ResourceReferenceProperty urn NoID packageVersion"

fun IDString :: "RefID \<Rightarrow> string \<times> bool" where
  "IDString (HasID rid) = (rid, True)"
| "IDString NoID = ([], False)"

section \<open>Go input values as the marshaler sees them\<close>

text \<open>
  \<^verbatim>\<open>marshalInputOptionsImpl\<close> inspects its argument \<^verbatim>\<open>v interface{}\<close> by type assertions and
  by reflection, and compares reflected types with the destination type that its caller
  passes. A value of the model is the Go value together with the answers these type
  queries give at that node (each node of an input is visited once):

  \<^item> a \<^verbatim>\<open>typecheck\<close> is the outcome of the block that compares \<^verbatim>\<open>input.ElementType()\<close> with
    \<^verbatim>\<open>destType\<close>: the types agree (or the destination is \<^verbatim>\<open>any\<close>), or
    \<^verbatim>\<open>internal.CallToOutputMethod\<close> converts the input to a new Output (its \<^verbatim>\<open>%T\<close> name and what
    awaiting it gives), or the conversion fails and the element type is assignable, or it is
    not assignable (with the text of the error);
  \<^item> the boolean of the scalar, pointer, struct and other constructors is the value of
    \<^verbatim>\<open>valueType.AssignableTo(destType) || valueType.ConvertibleTo(destType)\<close>, which the
    code asserts for every kind except array, slice and map;
  \<^item> a struct field carries the \<^verbatim>\<open>pulumi\<close> tag of the destination field that
    \<^verbatim>\<open>internal.MapStructTypes\<close> maps it to (the empty string when the field has no tag); a
    field with a tag is exported, so that reflection can read it;
  \<^item> a map lists its entries in the order this run's \<^verbatim>\<open>range\<close> visits them.

  \<^verbatim>\<open>settled\<close> is what \<^verbatim>\<open>awaitWithContext\<close> returns for an Output: the message of the error
  it was rejected with, or the value, \<^verbatim>\<open>known\<close>, \<^verbatim>\<open>secret\<close> and the dependency resources.
\<close>

datatype 'v settled = Rejecting string | Settling 'v bool bool "Resource list"

datatype 'o typecheck = TypesAgree | ConvertsTo string 'o | AssignableAsIs | NotAssignable string

datatype GoValue =
    Nil
  | NilPtr
  | InputValue "GoValue settled typecheck" GoValue
  | OutputValue string "GoValue settled typecheck" "GoValue settled" GoValue
  | AssetValue bool string string string
  | ArchiveValue bool "(string \<times> GoValue) list option" string string
  | ResourceValue Resource
  | BoolValue bool bool
  | IntValue bool int
  | UintValue bool nat
  | FloatValue bool nat
  | PtrValue bool GoValue
  | StringValue bool string
  | ArrayValue "GoValue list"
  | NilSlice
  | SliceValue "GoValue list"
  | NonStringKeyMap
  | NilMap
  | MapValue "(string \<times> GoValue) list"
  | StructValue bool "(string \<times> GoValue) list"
  | OtherValue bool string

record marshalOptions =
  ErrorOnOutput :: bool
  ExcludeResourceRefsFromDeps :: bool

definition errorOnOutput :: "marshalOptions option \<Rightarrow> bool" where
  "errorOnOutput opts = (case opts of None \<Rightarrow> False | Some os \<Rightarrow> ErrorOnOutput os)"

definition includeResourceRefs :: "marshalOptions option \<Rightarrow> bool" where
  "includeResourceRefs opts =
     (case opts of None \<Rightarrow> True | Some os \<Rightarrow> \<not> ExcludeResourceRefsFromDeps os)"

fun awaitID :: "Resource \<Rightarrow> (ID \<times> bool \<times> bool) outcome" where
  "awaitID NilResource = Panicked ''nil pointer dereference''"
| "awaitID (Res a k u (Rejects e) cs) = Failed (Rejected e)"
| "awaitID (Res a k u (Resolves i known secret) cs) = Returned (i, known, secret)"

text \<open>The \<^verbatim>\<open>Resource\<close> case of the type switch.\<close>

definition marshalResource :: "marshalOptions option \<Rightarrow> Resource \<Rightarrow> (PropertyValue \<times> Resource list) outcome" where
  "marshalResource opts v =
     (let deps = (if includeResourceRefs opts then [v] else []) in
      case awaitURN v of
        Panicked m \<Rightarrow> Panicked m
      | Failed e \<Rightarrow> Failed e
      | Returned (urn, known, secretURN) \<Rightarrow>
          if \<not> known then Panicked ''URN must be known''
          else if secretURN then Panicked ''URN must not be secret''
          else if isCustomResource v then
            (case awaitID v of
               Panicked m \<Rightarrow> Panicked m
             | Failed e \<Rightarrow> Failed e
             | Returned (rid, _, secretID) \<Rightarrow>
                 if secretID then Panicked ''CustomResource must not have a secret ID''
                 else Returned (MakeCustomResourceReference urn rid [], deps))
          else Returned (MakeComponentResourceReference urn [], deps))"

text \<open>
  The tail of the Output branch: expand the Output's dependencies, sort the URNs of the
  expanded set and wrap the element.
\<close>

definition wrapOutput :: "PropertyValue \<Rightarrow> bool \<Rightarrow> bool \<Rightarrow> Resource list \<Rightarrow> (PropertyValue \<times> Resource list) outcome" where
  "wrapOutput element known secret outputDeps =
     (case expandDependencies outputDeps of
        Panicked m \<Rightarrow> Panicked m
      | Failed e \<Rightarrow> Failed e
      | Returned depSet \<Rightarrow>
          Returned (OutputProperty element known secret
                      (if depSet \<noteq> [] then sort (map fst depSet) else []),
                    outputDeps))"

text \<open>\<^verbatim>\<open>strings.Split(tag, ",")[0]\<close>: the tag up to its first comma.\<close>

definition tagName :: "string \<Rightarrow> string" where
  "tagName tag = takeWhile (\<lambda>c. c \<noteq> CHR '','') tag"

definition assertFailed :: string where
  "assertFailed = ''cannot assign value to destination type''"

text \<open>
  The marshaler. Its \<^verbatim>\<open>for\<close> loop iterates once more only after dereferencing a pointer, which
  is the recursive call of the \<^const>\<open>PtrValue\<close> equation; the local \<^verbatim>\<open>deps\<close> is still empty
  there. When \<^verbatim>\<open>skipInputCheck\<close> is set the Input block is passed over and the value is handled
  as reflection sees it, which is the last component of \<^const>\<open>InputValue\<close> and
  \<^const>\<open>OutputValue\<close>. A typed nil pointer gives Null on both paths (as a nil Input, and at the
  nil check after the Input block). \<open>awaitOutput\<close> is the body of the branch
  \<^verbatim>\<open>if output, ok := input.(Output); ok\<close>, for the Output that \<^verbatim>\<open>input\<close> holds there. The loops
  over slice elements, map entries, struct fields and archive assets are the functions
  \<open>marshalSlice\<close>, \<open>marshalMap\<close>, \<open>marshalStruct\<close> and \<open>marshalAssets\<close>, with the loop's
  accumulators as arguments.
\<close>

function (sequential)
  marshalInputOptionsImpl ::
    "marshalOptions option \<Rightarrow> bool \<Rightarrow> GoValue \<Rightarrow> (PropertyValue \<times> Resource list) outcome"
  and awaitOutput ::
    "marshalOptions option \<Rightarrow> string \<Rightarrow> GoValue settled \<Rightarrow> (PropertyValue \<times> Resource list) outcome"
  and marshalSlice ::
    "marshalOptions option \<Rightarrow> PropertyValue list \<Rightarrow> Resource list \<Rightarrow> GoValue list
       \<Rightarrow> (PropertyValue \<times> Resource list) outcome"
  and marshalMap ::
    "marshalOptions option \<Rightarrow> PropertyMap \<Rightarrow> Resource list \<Rightarrow> (string \<times> GoValue) list
       \<Rightarrow> (PropertyValue \<times> Resource list) outcome"
  and marshalStruct ::
    "marshalOptions option \<Rightarrow> PropertyMap \<Rightarrow> Resource list \<Rightarrow> (string \<times> GoValue) list
       \<Rightarrow> (PropertyValue \<times> Resource list) outcome"
  and marshalAssets ::
    "marshalOptions option \<Rightarrow> PropertyMap \<Rightarrow> (string \<times> GoValue) list \<Rightarrow> PropertyMap outcome"
where
  "marshalInputOptionsImpl opts skipInputCheck Nil = Returned (Null, [])"
| "marshalInputOptionsImpl opts skipInputCheck NilPtr = Returned (Null, [])"
| "marshalInputOptionsImpl opts skipInputCheck (InputValue tc raw) =
     (if skipInputCheck then marshalInputOptionsImpl opts True raw
      else (case tc of
              NotAssignable msg \<Rightarrow> Failed (CannotMarshalInputAs msg)
            | ConvertsTo tname newOutput \<Rightarrow> awaitOutput opts tname newOutput
            | TypesAgree \<Rightarrow> marshalInputOptionsImpl opts True raw
            | AssignableAsIs \<Rightarrow> marshalInputOptionsImpl opts True raw))"
| "marshalInputOptionsImpl opts skipInputCheck (OutputValue tname tc output raw) =
     (if skipInputCheck then marshalInputOptionsImpl opts True raw
      else (case tc of
              NotAssignable msg \<Rightarrow> Failed (CannotMarshalInputAs msg)
            | ConvertsTo tname' newOutput \<Rightarrow> awaitOutput opts tname' newOutput
            | TypesAgree \<Rightarrow> awaitOutput opts tname output
            | AssignableAsIs \<Rightarrow> awaitOutput opts tname output))"
| "marshalInputOptionsImpl opts skipInputCheck (AssetValue invalid path text uri) =
     (if invalid then Failed InvalidAsset
      else Returned (AssetProperty path text uri, []))"
| "marshalInputOptionsImpl opts skipInputCheck (ArchiveValue invalid assets path uri) =
     (if invalid then Failed InvalidArchive
      else (case assets of
              None \<Rightarrow> Returned (ArchiveProperty None path uri, [])
            | Some entries \<Rightarrow>
                (case marshalAssets opts [] entries of
                   Panicked m \<Rightarrow> Panicked m
                 | Failed e \<Rightarrow> Failed e
                 | Returned m \<Rightarrow> Returned (ArchiveProperty (Some m) path uri, []))))"
| "marshalInputOptionsImpl opts skipInputCheck (ResourceValue r) = marshalResource opts r"
| "marshalInputOptionsImpl opts skipInputCheck (BoolValue assignable b) =
     (if assignable then Returned (BoolProperty b, []) else Panicked assertFailed)"
| "marshalInputOptionsImpl opts skipInputCheck (IntValue assignable i) =
     (if assignable then Returned (NumberProperty (Float64OfInt i), []) else Panicked assertFailed)"
| "marshalInputOptionsImpl opts skipInputCheck (UintValue assignable u) =
     (if assignable then Returned (NumberProperty (Float64OfUint u), []) else Panicked assertFailed)"
| "marshalInputOptionsImpl opts skipInputCheck (FloatValue assignable f) =
     (if assignable then Returned (NumberProperty (Float64Bits f), []) else Panicked assertFailed)"
| "marshalInputOptionsImpl opts skipInputCheck (PtrValue assignable pointee) =
     (if assignable then marshalInputOptionsImpl opts False pointee else Panicked assertFailed)"
| "marshalInputOptionsImpl opts skipInputCheck (StringValue assignable s) =
     (if assignable then Returned (StringProperty s, []) else Panicked assertFailed)"
| "marshalInputOptionsImpl opts skipInputCheck (ArrayValue elems) =
     Panicked ''reflect: call of reflect.Value.IsNil on array Value''"
| "marshalInputOptionsImpl opts skipInputCheck NilSlice = Returned (Null, [])"
| "marshalInputOptionsImpl opts skipInputCheck (SliceValue elems) = marshalSlice opts [] [] elems"
| "marshalInputOptionsImpl opts skipInputCheck NonStringKeyMap = Failed ExpectedStringMapKeys"
| "marshalInputOptionsImpl opts skipInputCheck NilMap = Returned (Null, [])"
| "marshalInputOptionsImpl opts skipInputCheck (MapValue entries) = marshalMap opts [] [] entries"
| "marshalInputOptionsImpl opts skipInputCheck (StructValue assignable flds) =
     (if assignable then marshalStruct opts [] [] flds else Panicked assertFailed)"
| "marshalInputOptionsImpl opts skipInputCheck (OtherValue assignable tname) =
     (if assignable then Failed (UnrecognizedInputType tname) else Panicked assertFailed)"
| "awaitOutput opts tname output =
     (if errorOnOutput opts then Failed (CannotMarshalOutput tname)
      else (case output of
              Rejecting msg \<Rightarrow> Failed (Rejected msg)
            | Settling ov known secret outputDeps \<Rightarrow>
                if known then
                  (case marshalInputOptionsImpl opts True ov of
                     Panicked m \<Rightarrow> Panicked m
                   | Failed e \<Rightarrow> Failed e
                   | Returned (element, _) \<Rightarrow>
                       if \<not> secret \<and> outputDeps = [] then Returned (element, [])
                       else wrapOutput element known secret outputDeps)
                else wrapOutput Null known secret outputDeps))"
| "marshalSlice opts arr deps [] = Returned (ArrayProperty arr, deps)"
| "marshalSlice opts arr deps (elem # rest) =
     (case marshalInputOptionsImpl opts False elem of
        Panicked m \<Rightarrow> Panicked m
      | Failed e \<Rightarrow> Failed e
      | Returned (e, d) \<Rightarrow> marshalSlice opts (arr @ [e]) (deps @ d) rest)"
| "marshalMap opts obj deps [] = Returned (ObjectProperty obj, deps)"
| "marshalMap opts obj deps ((key, val) # rest) =
     (case marshalInputOptionsImpl opts False val of
        Panicked m \<Rightarrow> Panicked m
      | Failed e \<Rightarrow> Failed e
      | Returned (mv, d) \<Rightarrow>
          marshalMap opts (if \<not> IsNull mv then AList.update key mv obj else obj) (deps @ d) rest)"
| "marshalStruct opts obj deps [] = Returned (ObjectProperty obj, deps)"
| "marshalStruct opts obj deps ((tag, field) # rest) =
     (if tagName tag = [] then marshalStruct opts obj deps rest
      else (case marshalInputOptionsImpl opts False field of
              Panicked m \<Rightarrow> Panicked m
            | Failed e \<Rightarrow> Failed e
            | Returned (fv, d) \<Rightarrow>
                marshalStruct opts (if \<not> IsNull fv then AList.update (tagName tag) fv obj else obj)
                  (deps @ d) rest))"
| "marshalAssets opts assets [] = Returned assets"
| "marshalAssets opts assets ((k, a) # rest) =
     (case marshalInputOptionsImpl opts False a of
        Panicked m \<Rightarrow> Panicked m
      | Failed e \<Rightarrow> Failed e
      | Returned (aa, _) \<Rightarrow> marshalAssets opts (AList.update k aa assets) rest)"
  by pat_completeness auto
termination
  by (relation "measure (\<lambda>x. case x of
        Inl (Inl (opts, skip, v)) \<Rightarrow> size v
      | Inl (Inr (Inl (opts, tname, output))) \<Rightarrow> size_settled size output
      | Inl (Inr (Inr (opts, arr, deps, elems))) \<Rightarrow> size_list size elems
      | Inr (Inl (opts, obj, deps, entries)) \<Rightarrow> size_list (size_prod (\<lambda>_. 0) size) entries
      | Inr (Inr (Inl (opts, obj, deps, flds))) \<Rightarrow> size_list (size_prod (\<lambda>_. 0) size) flds
      | Inr (Inr (Inr (opts, assets, entries))) \<Rightarrow> size_list (size_prod (\<lambda>_. 0) size) entries)")
     auto

definition marshalInputOptions :: "GoValue \<Rightarrow> marshalOptions option \<Rightarrow> (PropertyValue \<times> Resource list) outcome" where
  "marshalInputOptions v opts = marshalInputOptionsImpl opts False v"

definition marshalInput :: "GoValue \<Rightarrow> (PropertyValue \<times> Resource list) outcome" where
  "marshalInput v = marshalInputOptions v None"


section \<open>Marshaling the inputs of a resource\<close>

text \<open>
  The three maps that \<^verbatim>\<open>marshalInputsOptions\<close> builds: the set \<^verbatim>\<open>deps\<close> of URNs (a list without
  duplicates), \<^verbatim>\<open>pmap\<close> and \<^verbatim>\<open>pdeps\<close>.
\<close>

record inputsAcc =
  accDeps :: "URN list"
  accPmap :: PropertyMap
  accPdeps :: "(string \<times> URN list) list"

text \<open>
  The closure \<^verbatim>\<open>marshalProperty\<close>. \<open>recordProperty\<close> is its second half, from the loop over
  \<^verbatim>\<open>allDeps\<close> on; the keys of \<^verbatim>\<open>allDeps\<close> are appended in the order the \<^verbatim>\<open>range\<close> yields them.
\<close>

definition recordProperty :: "inputsAcc \<Rightarrow> string \<Rightarrow> PropertyValue \<Rightarrow> depmap \<Rightarrow> inputsAcc" where
  "recordProperty acc pname v allDeps =
     (let acc' = acc\<lparr>accDeps := fold List.insert (map fst allDeps) (accDeps acc)\<rparr> in
      if \<not> IsNull v \<or> allDeps \<noteq> [] then
        acc'\<lparr>accPmap := AList.update pname v (accPmap acc'),
             accPdeps := AList.update pname (map fst allDeps) (accPdeps acc')\<rparr>
      else acc')"

definition marshalProperty ::
  "marshalOptions option \<Rightarrow> inputsAcc \<Rightarrow> string \<Rightarrow> GoValue \<Rightarrow> inputsAcc outcome" where
  "marshalProperty opts acc pname pv =
     (case marshalInputOptions pv opts of
        Panicked m \<Rightarrow> Panicked m
      | Failed e \<Rightarrow> Failed (AwaitingInputProperty pname e)
      | Returned (v, resourceDeps) \<Rightarrow>
          (case expandDependencies resourceDeps of
             Panicked m \<Rightarrow> Panicked m
           | Failed e \<Rightarrow> Failed e
           | Returned allDeps \<Rightarrow> Returned (recordProperty acc pname v allDeps)))"

text \<open>
  The \<^verbatim>\<open>props\<close> argument: nil, a nil pointer, a struct (with the value of
  \<^verbatim>\<open>rt.Kind() == reflect.Struct\<close>, which the code asserts, and for each field the tag of the
  mapped destination field), a map (with the value of the asserted
  \<^verbatim>\<open>ktype.Kind() == reflect.String\<close> and whether \<^verbatim>\<open>key.Interface().(string)\<close> succeeds), or
  a value of another kind with the name of its type.
\<close>

datatype InputProps =
    NilProps
  | NilPtrProps
  | StructProps bool "(string \<times> GoValue) list"
  | MapProps bool bool "(string \<times> GoValue) list"
  | OtherProps string

fun marshalStructFields ::
  "marshalOptions option \<Rightarrow> inputsAcc \<Rightarrow> (string \<times> GoValue) list \<Rightarrow> inputsAcc outcome" where
  "marshalStructFields opts acc [] = Returned acc"
| "marshalStructFields opts acc ((tag, field) # rest) =
     (if tagName tag = [] then marshalStructFields opts acc rest
      else (case marshalProperty opts acc (tagName tag) field of
              Panicked m \<Rightarrow> Panicked m
            | Failed e \<Rightarrow> Failed e
            | Returned acc' \<Rightarrow> marshalStructFields opts acc' rest))"

fun marshalMapKeys ::
  "marshalOptions option \<Rightarrow> bool \<Rightarrow> inputsAcc \<Rightarrow> (string \<times> GoValue) list \<Rightarrow> inputsAcc outcome" where
  "marshalMapKeys opts keyIsString acc [] = Returned acc"
| "marshalMapKeys opts keyIsString acc ((keyname, val) # rest) =
     (if \<not> keyIsString then Panicked ''interface conversion: interface {} is not string''
      else (case marshalProperty opts acc keyname val of
              Panicked m \<Rightarrow> Panicked m
            | Failed e \<Rightarrow> Failed e
            | Returned acc' \<Rightarrow> marshalMapKeys opts keyIsString acc' rest))"

definition emptyAcc :: inputsAcc where
  "emptyAcc = \<lparr>accDeps = [], accPmap = [], accPdeps = []\<rparr>"

definition finishInputs :: "inputsAcc \<Rightarrow> PropertyMap \<times> (string \<times> URN list) list \<times> URN list" where
  "finishInputs acc = (accPmap acc, accPdeps acc, accDeps acc)"

fun marshalInputsOptions ::
  "InputProps \<Rightarrow> marshalOptions option
     \<Rightarrow> (PropertyMap \<times> (string \<times> URN list) list \<times> URN list) outcome" where
  "marshalInputsOptions NilProps opts = Returned ([], [], [])"
| "marshalInputsOptions NilPtrProps opts = Returned ([], [], [])"
| "marshalInputsOptions (StructProps elemIsStruct flds) opts =
     (if \<not> elemIsStruct then Panicked ''expected struct''
      else (case marshalStructFields opts emptyAcc flds of
              Panicked m \<Rightarrow> Panicked m
            | Failed e \<Rightarrow> Failed e
            | Returned acc \<Rightarrow> Returned (finishInputs acc)))"
| "marshalInputsOptions (MapProps elemKeyIsString keyIsString entries) opts =
     (if \<not> elemKeyIsString then Panicked ''expected map with string keys''
      else (case marshalMapKeys opts keyIsString emptyAcc entries of
              Panicked m \<Rightarrow> Panicked m
            | Failed e \<Rightarrow> Failed e
            | Returned acc \<Rightarrow> Returned (finishInputs acc)))"
| "marshalInputsOptions (OtherProps tname) opts = Failed (NotStructOrMap tname)"

definition marshalInputs ::
  "InputProps \<Rightarrow> (PropertyMap \<times> (string \<times> URN list) list \<times> URN list) outcome" where
  "marshalInputs props = marshalInputsOptions props None"

text \<open>
  The struct rule of the specification, in its own words: the fields that take part are
  those whose tag has a non-empty leading segment, under that segment as key; the object
  holds the fields whose marshaled value is not Null.
\<close>

definition participating :: "(string \<times> GoValue) list \<Rightarrow> (string \<times> GoValue) list" where
  "participating flds = [(tagName tag, v). (tag, v) \<leftarrow> flds, tagName tag \<noteq> []]"

definition marshaledValue :: "marshalOptions option \<Rightarrow> GoValue \<Rightarrow> PropertyValue" where
  "marshaledValue opts v =
     (case marshalInputOptionsImpl opts False v of Returned (pv, d) \<Rightarrow> pv | _ \<Rightarrow> Null)"

definition marshaledDeps :: "marshalOptions option \<Rightarrow> GoValue \<Rightarrow> Resource list" where
  "marshaledDeps opts v =
     (case marshalInputOptionsImpl opts False v of Returned (pv, d) \<Rightarrow> d | _ \<Rightarrow> [])"

definition sparseFields :: "marshalOptions option \<Rightarrow> (string \<times> GoValue) list \<Rightarrow> (string \<times> PropertyValue) list" where
  "sparseFields opts flds =
     filter (\<lambda>(k, pv). \<not> IsNull pv) (map (\<lambda>(k, v). (k, marshaledValue opts v)) (participating flds))"

definition objectOf :: "(string \<times> PropertyValue) list \<Rightarrow> PropertyMap \<Rightarrow> PropertyMap" where
  "objectOf kvs obj = foldl (\<lambda>obj (k, pv). AList.update k pv obj) obj kvs"

text \<open>
  The rule for top-level properties, in the words of the code's condition: a property is
  stored when its marshaled value is not Null or its expanded dependency set is not empty.
  \<open>expandedOf\<close> is the expanded dependency set of a property, \<open>storedValues\<close> and
  \<open>storedURNs\<close> are what the stored properties put into the property map and into the
  per-property dependency map, and \<open>assignAll\<close> makes the assignments in order.
\<close>

definition expandedOf :: "marshalOptions option \<Rightarrow> GoValue \<Rightarrow> depmap" where
  "expandedOf opts v =
     (case expandDependencies (marshaledDeps opts v) of Returned allDeps \<Rightarrow> allDeps | _ \<Rightarrow> [])"

definition storedProperties ::
  "marshalOptions option \<Rightarrow> (string \<times> GoValue) list \<Rightarrow> (string \<times> GoValue) list" where
  "storedProperties opts props =
     filter (\<lambda>(k, v). \<not> IsNull (marshaledValue opts v) \<or> expandedOf opts v \<noteq> []) props"



definition assignAll :: "(string \<times> 'a) list \<Rightarrow> (string \<times> 'a) list \<Rightarrow> (string \<times> 'a) list" where
  "assignAll kvs m = foldl (\<lambda>m (k, x). AList.update k x m) m kvs"

definition recordProperties ::
  "marshalOptions option \<Rightarrow> inputsAcc \<Rightarrow> (string \<times> GoValue) list \<Rightarrow> inputsAcc" where
  "recordProperties opts acc props =
     foldl (\<lambda>acc (k, v). recordProperty acc k (marshaledValue opts v) (expandedOf opts v)) acc props"

section \<open>Semantic versions and the versioned registry\<close>

text \<open>
  \<^verbatim>\<open>semver.Version\<close> of the library \<^verbatim>\<open>github.com/blang/semver\<close>, which is outside the repository:
  three unsigned numbers, the pre-release identifiers and the build metadata. \<^verbatim>\<open>Compare\<close> is the
  precedence of Semantic Versioning: major, minor and patch numerically, then a version
  without pre-release identifiers above one with them, then the identifiers pairwise (a
  numeric one below an alphanumeric one, numbers by value, strings bytewise), the longer
  list winning when one is a prefix of the other. Build metadata is ignored.
\<close>

datatype PRVersion = PRVersion (VersionStr: string) (VersionNum: nat) (IsNum: bool)

datatype Version =
  Version (Major: nat) (Minor: nat) (Patch: nat) (Pre: "PRVersion list") (Build: "string list")

definition comparePR :: "PRVersion \<Rightarrow> PRVersion \<Rightarrow> int" where
  "comparePR v w =
     (if IsNum v \<and> \<not> IsNum w then - 1
      else if \<not> IsNum v \<and> IsNum w then 1
      else if IsNum v \<and> IsNum w then
        (if VersionNum v = VersionNum w then 0
         else if VersionNum v > VersionNum w then 1 else - 1)
      else
        (if VersionStr v = VersionStr w then 0
         else if VersionStr v > VersionStr w then 1 else - 1))"

fun comparePre :: "PRVersion list \<Rightarrow> PRVersion list \<Rightarrow> int" where
  "comparePre [] [] = 0"
| "comparePre [] (y # ys) = - 1"
| "comparePre (x # xs) [] = 1"
| "comparePre (x # xs) (y # ys) =
     (if comparePR x y = 0 then comparePre xs ys
      else if comparePR x y = 1 then 1 else - 1)"

definition Compare :: "Version \<Rightarrow> Version \<Rightarrow> int" where
  "Compare v w =
     (if Major v \<noteq> Major w then (if Major v > Major w then 1 else - 1)
      else if Minor v \<noteq> Minor w then (if Minor v > Minor w then 1 else - 1)
      else if Patch v \<noteq> Patch w then (if Patch v > Patch w then 1 else - 1)
      else if Pre v = [] \<and> Pre w = [] then 0
      else if Pre v = [] \<and> Pre w \<noteq> [] then 1
      else if Pre v \<noteq> [] \<and> Pre w = [] then - 1
      else comparePre (Pre v) (Pre w))"

definition EQ :: "Version \<Rightarrow> Version \<Rightarrow> bool" where
  "EQ v w = (Compare v w = 0)"

definition GTE :: "Version \<Rightarrow> Version \<Rightarrow> bool" where
  "GTE v w = (Compare v w \<ge> 0)"

definition nullVersion :: Version where
  "nullVersion = Version 0 0 0 [] []"

text \<open>
  A \<^verbatim>\<open>Versioned\<close> value is its version and what is registered with it. The \<^verbatim>\<open>versions\<close> map of a
  \<^verbatim>\<open>versionedMap\<close> is an association list; a missing key reads as the nil slice. The mutex
  has no counterpart in a sequential model.
\<close>

datatype 'c Versioned = Versioned (getVersion: Version) (payload: 'c)

type_synonym 'c versionedMap = "(string \<times> 'c Versioned list) list"

definition versionsAt :: "'c versionedMap \<Rightarrow> string \<Rightarrow> 'c Versioned list" where
  "versionsAt vm key = (case map_of vm key of None \<Rightarrow> [] | Some vs \<Rightarrow> vs)"

text \<open>The loop of \<^verbatim>\<open>Load\<close>, with \<^verbatim>\<open>bestVersion\<close> as an argument (\<open>None\<close> is nil).\<close>

fun loadScan ::
  "bool \<Rightarrow> Version \<Rightarrow> 'c Versioned option \<Rightarrow> 'c Versioned list \<Rightarrow> 'c Versioned option \<times> bool" where
  "loadScan wildcard version bestVersion [] = (bestVersion, bestVersion \<noteq> None)"
| "loadScan wildcard version bestVersion (v # rest) =
     (if \<not> wildcard \<and> Major (getVersion v) \<noteq> Major version then
        loadScan wildcard version bestVersion rest
      else if EQ (getVersion v) version then (Some v, True)
      else (case bestVersion of
              None \<Rightarrow> loadScan wildcard version (Some v) rest
            | Some best \<Rightarrow>
                if GTE (getVersion v) (getVersion best) then loadScan wildcard version (Some v) rest
                else loadScan wildcard version bestVersion rest))"

definition Load :: "'c versionedMap \<Rightarrow> string \<Rightarrow> Version \<Rightarrow> 'c Versioned option \<times> bool" where
  "Load vm key version = loadScan (EQ version nullVersion) version None (versionsAt vm key)"

definition hasVersion :: "'c Versioned \<Rightarrow> 'c Versioned list \<Rightarrow> bool" where
  "hasVersion val versions = (\<exists>v \<in> set versions. EQ (getVersion v) (getVersion val))"

definition Store :: "'c versionedMap \<Rightarrow> string \<Rightarrow> 'c Versioned \<Rightarrow> 'c versionedMap outcome" where
  "Store vm key val =
     (if map_of vm key \<noteq> None \<and> hasVersion val (versionsAt vm key) then
        Failed (ExistingRegistration key)
      else Returned (AList.update key (versionsAt vm key @ [val]) vm))"

text \<open>
  The candidates of a lookup, in the words of the specification: every entry under the key
  for the wildcard version, the entries of the requested major version otherwise.
\<close>

definition candidates :: "'c versionedMap \<Rightarrow> string \<Rightarrow> Version \<Rightarrow> 'c Versioned list" where
  "candidates vm key version =
     filter (\<lambda>v. EQ version nullVersion \<or> Major (getVersion v) = Major version)
            (versionsAt vm key)"


section \<open>Unmarshaling\<close>

text \<open>
  What lies outside \<^verbatim>\<open>rpc.go\<close> and is read by the unmarshaler, as the fields of one record:
  the two package-level registries (an entry's payload is the constructor it was registered
  with: \<^verbatim>\<open>ConstructProvider\<close> or \<^verbatim>\<open>Construct\<close>, applied to name, type and URN),
  \<^verbatim>\<open>semver.ParseTolerant\<close> (\<open>None\<close> when it returns an error), the accessors of a URN and of a
  type token, \<^verbatim>\<open>resource.IsInternalPropertyKey\<close>, and the reflective assignability tests of
  \<^verbatim>\<open>unmarshalOutput\<close>.
\<close>

datatype 'r handle =
    Constructed 'r
  | DependencyProviderResource URN ID
  | DependencyCustomResource URN ID
  | DependencyResource URN

datatype DestType =
    DPtr DestType
  | DBool
  | DInt
  | DUint
  | DFloat
  | DString
  | DSlice DestType
  | DMap bool DestType
  | DAssetInterface
  | DArchiveInterface
  | DAnyInterface
  | DNonEmptyInterface
  | DStruct "(bool \<times> string \<times> DestType) list"
  | DOther

record 'r world =
  resourcePackages :: "(string \<Rightarrow> string \<Rightarrow> string \<Rightarrow> 'r outcome) versionedMap"
  resourceModules :: "(string \<Rightarrow> string \<Rightarrow> string \<Rightarrow> 'r outcome) versionedMap"
  ParseTolerant :: "string \<Rightarrow> Version option"
  urnName :: "URN \<Rightarrow> string"
  urnType :: "URN \<Rightarrow> string"
  HasModuleMember :: "string \<Rightarrow> bool"
  typeModule :: "string \<Rightarrow> string"
  typeName :: "string \<Rightarrow> string"
  IsInternalPropertyKey :: "string \<Rightarrow> bool"
  assetAssignableTo :: "DestType \<Rightarrow> bool"
  archiveAssignableTo :: "DestType \<Rightarrow> bool"
  resourceFitsInterface :: "'r handle \<Rightarrow> DestType \<Rightarrow> bool"
  resourceAssignableTo :: "'r handle \<Rightarrow> DestType \<Rightarrow> bool"

definition construct :: "(string \<Rightarrow> string \<Rightarrow> string \<Rightarrow> 'r outcome) \<Rightarrow> string \<Rightarrow> string \<Rightarrow> string \<Rightarrow> 'r handle outcome" where
  "construct ctor resName resType urn =
     (case ctor resName resType urn of
        Panicked m \<Rightarrow> Panicked m
      | Failed e \<Rightarrow> Failed e
      | Returned r \<Rightarrow> Returned (Constructed r))"

definition referencedVersion :: "'r world \<Rightarrow> string \<Rightarrow> Version outcome" where
  "referencedVersion w packageVersion =
     (if length packageVersion > 0 then
        (case ParseTolerant w packageVersion of
           None \<Rightarrow> Failed (FailedToParseProviderVersion packageVersion)
         | Some version \<Rightarrow> Returned version)
      else Returned nullVersion)"

definition isProviderType :: "'r world \<Rightarrow> string \<Rightarrow> bool" where
  "isProviderType w resType = (HasModuleMember w resType \<and> typeModule w resType = ''pulumi:providers'')"

text \<open>The reference is given by its three fields: URN, ID and PackageVersion.\<close>

definition unmarshalResourceReference :: "'r world \<Rightarrow> URN \<Rightarrow> RefID \<Rightarrow> string \<Rightarrow> 'r handle outcome" where
  "unmarshalResourceReference w urn refID packageVersion =
     (case referencedVersion w packageVersion of
        Panicked m \<Rightarrow> Panicked m
      | Failed e \<Rightarrow> Failed e
      | Returned version \<Rightarrow>
          (let resName = urnName w urn; resType = urnType w urn in
           if isProviderType w resType then
             (case Load (resourcePackages w) (typeName w resType) version of
                (Some resourcePackage, True) \<Rightarrow> construct (payload resourcePackage) resName resType urn
              | (None, True) \<Rightarrow> Panicked ''interface conversion: interface is nil''
              | (_, False) \<Rightarrow> Returned (DependencyProviderResource urn (fst (IDString refID))))
           else
             (case Load (resourceModules w) (typeModule w resType) version of
                (Some resourceModule, True) \<Rightarrow> construct (payload resourceModule) resName resType urn
              | (None, True) \<Rightarrow> Panicked ''interface conversion: interface is nil''
              | (_, False) \<Rightarrow>
                  (if snd (IDString refID) then Returned (DependencyCustomResource urn (fst (IDString refID)))
                   else Returned (DependencyResource urn)))))"

text \<open>The runtime values that \<^verbatim>\<open>unmarshalPropertyValue\<close> returns as \<^verbatim>\<open>interface{}\<close>.\<close>

datatype 'r UValue =
    UNil
  | UBool bool
  | UNumber float64
  | UString string
  | UArray "'r UValue list"
  | UMap "(string \<times> 'r UValue) list"
  | UFileAsset string
  | UStringAsset string
  | URemoteAsset string
  | UAssetArchive "(string \<times> 'r UValue) list"
  | UFileArchive string
  | URemoteArchive string
  | UResource "'r handle"

text \<open>
  Modelled from the spec: the predicates \<^verbatim>\<open>IsPath\<close>, \<^verbatim>\<open>IsText\<close>, \<^verbatim>\<open>IsURI\<close> and \<^verbatim>\<open>IsAssets\<close> of the
  wire asset and archive are declared outside the given sources. The spec speaks of the
  sub-variant that is populated: a non-empty path, text or URI, a non-nil asset map.
\<close>

definition populated :: "string \<Rightarrow> bool" where
  "populated s = (s \<noteq> [])"

text \<open>
  \<^verbatim>\<open>unmarshalPropertyValue\<close>, with its loops over array elements, object entries and archive
  assets; the loops carry the result built so far and the running \<^verbatim>\<open>secret\<close>.
\<close>

fun unmarshalPropertyValue :: "'r world \<Rightarrow> PropertyValue \<Rightarrow> ('r UValue \<times> bool) outcome"
  and unmarshalElements ::
    "'r world \<Rightarrow> 'r UValue list \<Rightarrow> bool \<Rightarrow> PropertyValue list \<Rightarrow> ('r UValue list \<times> bool) outcome"
  and unmarshalEntries ::
    "'r world \<Rightarrow> (string \<times> 'r UValue) list \<Rightarrow> bool \<Rightarrow> (string \<times> PropertyValue) list
       \<Rightarrow> ((string \<times> 'r UValue) list \<times> bool) outcome"
where
  "unmarshalPropertyValue w Computed = Returned (UNil, False)"
| "unmarshalPropertyValue w (OutputProperty element known secret deps) =
     (if \<not> known then Returned (UNil, secret)
      else (case unmarshalPropertyValue w element of
              Panicked m \<Rightarrow> Panicked m
            | Failed e \<Rightarrow> Failed e
            | Returned (ov, _) \<Rightarrow> Returned (ov, secret)))"
| "unmarshalPropertyValue w (SecretProperty element) =
     (case unmarshalPropertyValue w element of
        Panicked m \<Rightarrow> Panicked m
      | Failed e \<Rightarrow> Failed e
      | Returned (sv, _) \<Rightarrow> Returned (sv, True))"
| "unmarshalPropertyValue w (ArrayProperty arr) =
     (case unmarshalElements w [] False arr of
        Panicked m \<Rightarrow> Panicked m
      | Failed e \<Rightarrow> Failed e
      | Returned (rv, secret) \<Rightarrow> Returned (UArray rv, secret))"
| "unmarshalPropertyValue w (ObjectProperty obj) =
     (case unmarshalEntries w [] False obj of
        Panicked m \<Rightarrow> Panicked m
      | Failed e \<Rightarrow> Failed e
      | Returned (m, secret) \<Rightarrow> Returned (UMap m, secret))"
| "unmarshalPropertyValue w (AssetProperty path text uri) =
     (if populated path then Returned (UFileAsset path, False)
      else if populated text then Returned (UStringAsset text, False)
      else if populated uri then Returned (URemoteAsset uri, False)
      else Failed ExpectedAssetVariant)"
| "unmarshalPropertyValue w (ArchiveProperty assets path uri) =
     (case assets of
        Some entries \<Rightarrow>
          (case unmarshalEntries w [] False entries of
             Panicked m \<Rightarrow> Panicked m
           | Failed e \<Rightarrow> Failed e
           | Returned (as, secret) \<Rightarrow> Returned (UAssetArchive as, secret))
      | None \<Rightarrow>
          if populated path then Returned (UFileArchive path, False)
          else if populated uri then Returned (URemoteArchive uri, False)
          else Failed ExpectedAssetVariant)"
| "unmarshalPropertyValue w (ResourceReferenceProperty urn refID packageVersion) =
     (case unmarshalResourceReference w urn refID packageVersion of
        Panicked m \<Rightarrow> Panicked m
      | Failed e \<Rightarrow> Failed e
      | Returned res \<Rightarrow> Returned (UResource res, False))"
| "unmarshalPropertyValue w Null = Returned (UNil, False)"
| "unmarshalPropertyValue w (BoolProperty b) = Returned (UBool b, False)"
| "unmarshalPropertyValue w (NumberProperty n) = Returned (UNumber n, False)"
| "unmarshalPropertyValue w (StringProperty s) = Returned (UString s, False)"
| "unmarshalElements w rv secret [] = Returned (rv, secret)"
| "unmarshalElements w rv secret (e # rest) =
     (case unmarshalPropertyValue w e of
        Panicked m \<Rightarrow> Panicked m
      | Failed err \<Rightarrow> Failed err
      | Returned (ev, esecret) \<Rightarrow> unmarshalElements w (rv @ [ev]) (secret \<or> esecret) rest)"
| "unmarshalEntries w m secret [] = Returned (m, secret)"
| "unmarshalEntries w m secret ((k, e) # rest) =
     (case unmarshalPropertyValue w e of
        Panicked msg \<Rightarrow> Panicked msg
      | Failed err \<Rightarrow> Failed err
      | Returned (ev, esecret) \<Rightarrow> unmarshalEntries w (AList.update k ev m) (secret \<or> esecret) rest)"

text \<open>
  \<^verbatim>\<open>unmarshalOutput\<close> returns the secret flag and writes the value through \<^verbatim>\<open>dest\<close>. The model
  returns what the function returns; the destination is given by its type (for a struct:
  for each field whether it can be set, its tag and its type; for a map: whether the key kind
  is string), and \<open>canSet\<close> is \<^verbatim>\<open>dest.CanSet()\<close>, true at every recursive call.
\<close>

fun stripPointers :: "DestType \<Rightarrow> DestType" where
  "stripPointers (DPtr t) = stripPointers t"
| "stripPointers t = t"

fun isPointer :: "DestType \<Rightarrow> bool" where
  "isPointer (DPtr t) = True"
| "isPointer _ = False"

fun leftAtZero :: "PropertyValue \<Rightarrow> bool" where
  "leftAtZero Null = True"
| "leftAtZero Computed = True"
| "leftAtZero (OutputProperty element known secret deps) = (\<not> known)"
| "leftAtZero _ = False"

fun typeString :: "PropertyValue \<Rightarrow> string" where
  "typeString Null = ''null''"
| "typeString (BoolProperty b) = ''bool''"
| "typeString (NumberProperty n) = ''number''"
| "typeString (StringProperty s) = ''string''"
| "typeString (ArrayProperty a) = ''[]''"
| "typeString (ObjectProperty obj) = ''object''"
| "typeString (AssetProperty p t u) = ''asset''"
| "typeString (ArchiveProperty a p u) = ''archive''"
| "typeString (SecretProperty e) = ''secret''"
| "typeString (OutputProperty e k s d) = ''output''"
| "typeString Computed = ''output<unknown>''"
| "typeString (ResourceReferenceProperty u i v) = ''resourceReference''"

definition secretOf :: "('a \<times> bool) outcome \<Rightarrow> bool outcome" where
  "secretOf r = (case r of Panicked m \<Rightarrow> Panicked m | Failed e \<Rightarrow> Failed e
                 | Returned (_, secret) \<Rightarrow> Returned secret)"

text \<open>The kind switch of \<^verbatim>\<open>unmarshalOutput\<close> for the kinds that do not recurse.\<close>

fun unmarshalScalar :: "'r world \<Rightarrow> PropertyValue \<Rightarrow> DestType \<Rightarrow> bool outcome" where
  "unmarshalScalar w (BoolProperty b) DBool = Returned False"
| "unmarshalScalar w v DBool = Failed (ExpectedGot ''bool'' (typeString v))"
| "unmarshalScalar w (NumberProperty n) DInt = Returned False"
| "unmarshalScalar w v DInt = Failed (ExpectedGot ''int'' (typeString v))"
| "unmarshalScalar w (NumberProperty n) DUint = Returned False"
| "unmarshalScalar w v DUint = Failed (ExpectedGot ''uint'' (typeString v))"
| "unmarshalScalar w (NumberProperty n) DFloat = Returned False"
| "unmarshalScalar w v DFloat = Failed (ExpectedGot ''float'' (typeString v))"
| "unmarshalScalar w (StringProperty s) DString = Returned False"
| "unmarshalScalar w v DString = Failed (ExpectedGot ''string'' (typeString v))"
| "unmarshalScalar w v DAssetInterface = secretOf (unmarshalPropertyValue w v)"
| "unmarshalScalar w v DArchiveInterface = secretOf (unmarshalPropertyValue w v)"
| "unmarshalScalar w v DNonEmptyInterface = Failed (CannotUnmarshalIntoInterface ''interface'')"
| "unmarshalScalar w v DAnyInterface = secretOf (unmarshalPropertyValue w v)"
| "unmarshalScalar w v (DSlice t) = Failed (ExpectedGot ''slice'' (typeString v))"
| "unmarshalScalar w v (DMap k t) = Failed (ExpectedGot ''map'' (typeString v))"
| "unmarshalScalar w v (DStruct fs) = Failed (ExpectedGot ''struct'' (typeString v))"
| "unmarshalScalar w v t = Failed (CannotUnmarshalIntoType ''other'')"


function (sequential)
  unmarshalOutput :: "'r world \<Rightarrow> bool \<Rightarrow> PropertyValue \<Rightarrow> DestType \<Rightarrow> bool outcome"
  and unmarshalSliceElems ::
    "'r world \<Rightarrow> bool \<Rightarrow> PropertyValue list \<Rightarrow> DestType \<Rightarrow> bool outcome"
  and unmarshalMapEntries ::
    "'r world \<Rightarrow> bool \<Rightarrow> (string \<times> PropertyValue) list \<Rightarrow> DestType \<Rightarrow> bool outcome"
  and unmarshalStructFields ::
    "'r world \<Rightarrow> bool \<Rightarrow> (string \<times> PropertyValue) list \<Rightarrow> (bool \<times> string \<times> DestType) list
       \<Rightarrow> bool outcome"
where
  "unmarshalOutput w canSet v dest =
     (if \<not> canSet then Panicked ''value must be settable''
      else if leftAtZero v then Returned False
      else
        (case v of
           AssetProperty path text uri \<Rightarrow>
             if \<not> assetAssignableTo w (stripPointers dest) then Failed (ExpectedGot ''dest'' ''asset'')
             else secretOf (unmarshalPropertyValue w v)
         | ArchiveProperty assets path uri \<Rightarrow>
             if \<not> archiveAssignableTo w (stripPointers dest) then Failed (ExpectedGot ''dest'' ''archive'')
             else secretOf (unmarshalPropertyValue w v)
         | SecretProperty element \<Rightarrow>
             (case unmarshalOutput w True element (stripPointers dest) of
                Panicked m \<Rightarrow> Panicked m
              | Failed e \<Rightarrow> Failed e
              | Returned _ \<Rightarrow> Returned True)
         | ResourceReferenceProperty urn refID packageVersion \<Rightarrow>
             (case unmarshalPropertyValue w v of
                Panicked m \<Rightarrow> Panicked m
              | Failed e \<Rightarrow> Failed e
              | Returned (UResource res, secret) \<Rightarrow>
                  if \<not> isPointer dest \<and> resourceFitsInterface w res (stripPointers dest)
                  then Returned secret
                  else if \<not> resourceAssignableTo w res (stripPointers dest)
                  then Failed (ExpectedGot ''dest'' ''resource'')
                  else Returned secret
              | Returned (_, secret) \<Rightarrow> Panicked ''reflect: call of reflect.Value.Elem'')
         | OutputProperty element known secret deps \<Rightarrow>
             (case unmarshalOutput w True element (stripPointers dest) of
                Panicked m \<Rightarrow> Panicked m
              | Failed e \<Rightarrow> Failed e
              | Returned _ \<Rightarrow> Returned secret)
         | ArrayProperty arr \<Rightarrow>
             (case stripPointers dest of
                DSlice t \<Rightarrow> unmarshalSliceElems w False arr t
              | d \<Rightarrow> unmarshalScalar w v d)
         | ObjectProperty obj \<Rightarrow>
             (case stripPointers dest of
                DMap keyIsString t \<Rightarrow>
                  if \<not> keyIsString then Failed MapKeysMustBeStrings
                  else unmarshalMapEntries w False obj t
              | DStruct flds \<Rightarrow> unmarshalStructFields w False obj flds
              | d \<Rightarrow> unmarshalScalar w v d)
         | _ \<Rightarrow> unmarshalScalar w v (stripPointers dest)))"
| "unmarshalSliceElems w secret [] t = Returned secret"
| "unmarshalSliceElems w secret (e # rest) t =
     (case unmarshalOutput w True e t of
        Panicked m \<Rightarrow> Panicked m
      | Failed err \<Rightarrow> Failed err
      | Returned isecret \<Rightarrow> unmarshalSliceElems w (secret \<or> isecret) rest t)"
| "unmarshalMapEntries w secret [] t = Returned secret"
| "unmarshalMapEntries w secret ((k, e) # rest) t =
     (if IsInternalPropertyKey w k then unmarshalMapEntries w secret rest t
      else (case unmarshalOutput w True e t of
              Panicked m \<Rightarrow> Panicked m
            | Failed err \<Rightarrow> Failed err
            | Returned esecret \<Rightarrow> unmarshalMapEntries w (secret \<or> esecret) rest t))"
| "unmarshalStructFields w secret obj [] = Returned secret"
| "unmarshalStructFields w secret obj ((fieldCanSet, tag, t) # rest) =
     (if \<not> fieldCanSet then unmarshalStructFields w secret obj rest
      else if tagName tag = [] then unmarshalStructFields w secret obj rest
      else (case map_of obj (tagName tag) of
              None \<Rightarrow> unmarshalStructFields w secret obj rest
            | Some e \<Rightarrow>
                (case unmarshalOutput w True e t of
                   Panicked m \<Rightarrow> Panicked m
                 | Failed err \<Rightarrow> Failed err
                 | Returned osecret \<Rightarrow> unmarshalStructFields w (secret \<or> osecret) obj rest)))"
  by pat_completeness auto
termination
proof -
  have smaller: "size e < size_list (size_prod (\<lambda>_. 0) size) obj"
    if "map_of obj k = Some e" for obj :: "(string \<times> PropertyValue) list" and k e
    using that by (induction obj) (auto split: if_splits)
  show ?thesis
    by (relation "inv_image (less_than <*lex*> less_than) (\<lambda>x. case x of
          Inl (Inl (w, canSet, v, dest)) \<Rightarrow> (size v, 0)
        | Inl (Inr (w, secret, arr, t)) \<Rightarrow> (size_list size arr, 0)
        | Inr (Inl (w, secret, obj, t)) \<Rightarrow> (size_list (size_prod (\<lambda>_. 0) size) obj, 0)
        | Inr (Inr (w, secret, obj, flds)) \<Rightarrow>
            (size_list (size_prod (\<lambda>_. 0) size) obj, length flds))")
       (auto dest: smaller)
qed

section \<open>Apply\<close>

text \<open>
  Modelled from the spec: the combinator \<^verbatim>\<open>Apply\<close> is implemented outside the given sources,
  which hold only its test \<^verbatim>\<open>TestOutputApply\<close>. The specification: when the Output resolves
  known, the callback is invoked on its value; an error of the callback rejects the result, a
  value resolves it known, an Output is awaited and the result inherits its known, secret and
  dependencies. When the Output resolves unknown the callback is not invoked and the result
  is unknown with the same secret and dependencies. When it rejects, the result rejects with
  the same error and the callback is not invoked.

  A settled Output is a rejection, an unknown resolution or a known one. \<open>Apply\<close> returns the
  settled result together with the list of arguments the callback was invoked on.
\<close>

datatype 'a OutputState =
    RejectedOutput string
  | UnknownOutput bool "URN set"
  | KnownOutput 'a bool "URN set"

datatype 'b applied = ReturnsError string | ReturnsValue 'b | ReturnsOutput "'b OutputState"

fun Apply :: "'a OutputState \<Rightarrow> ('a \<Rightarrow> 'b applied) \<Rightarrow> 'b OutputState \<times> 'a list" where
  "Apply (RejectedOutput err) f = (RejectedOutput err, [])"
| "Apply (UnknownOutput secret deps) f = (UnknownOutput secret deps, [])"
| "Apply (KnownOutput v secret deps) f =
     (case f v of
        ReturnsError err \<Rightarrow> (RejectedOutput err, [v])
      | ReturnsValue y \<Rightarrow> (KnownOutput y secret deps, [v])
      | ReturnsOutput inner \<Rightarrow> (inner, [v]))"

text \<open>What \<^verbatim>\<open>await\<close> reports of a settled Output.\<close>

fun awaitKnown :: "'a OutputState \<Rightarrow> bool" where
  "awaitKnown (KnownOutput v secret deps) = True"
| "awaitKnown _ = False"

fun awaitSecret :: "'a OutputState \<Rightarrow> bool" where
  "awaitSecret (KnownOutput v secret deps) = secret"
| "awaitSecret (UnknownOutput secret deps) = secret"
| "awaitSecret (RejectedOutput err) = False"

fun awaitDeps :: "'a OutputState \<Rightarrow> URN set" where
  "awaitDeps (KnownOutput v secret deps) = deps"
| "awaitDeps (UnknownOutput secret deps) = deps"
| "awaitDeps (RejectedOutput err) = {}"

fun awaitError :: "'a OutputState \<Rightarrow> string option" where
  "awaitError (RejectedOutput err) = Some err"
| "awaitError _ = None"

section \<open>Concrete inputs\<close>

text \<open>
  The scenario of the specification: the local component C owns the custom resource A and
  the local component D, which owns the custom resources B and E.
\<close>

definition resA :: Resource where
  "resA = Res 1 Custom (Resolves ''urn:A'' True False) (Resolves ''a'' True False) []"

definition resB :: Resource where
  "resB = Res 2 Custom (Resolves ''urn:B'' True False) (Resolves ''b'' True False) []"

definition resE :: Resource where
  "resE = Res 3 Custom (Resolves ''urn:E'' True False) (Resolves ''e'' True False) []"

definition resD :: Resource where
  "resD = Res 4 LocalComponent (Resolves ''urn:D'' True False) (Resolves [] False False) [resB, resE]"

definition resC :: Resource where
  "resC = Res 5 LocalComponent (Resolves ''urn:C'' True False) (Resolves [] False False) [resA, resD]"

text \<open>A registry with the versions 1.2.0 and 2.0.0 under the key K.\<close>

definition v120 :: Version where
  "v120 = Version 1 2 0 [] []"
definition v200 :: Version where
  "v200 = Version 2 0 0 [] []"
definition v150 :: Version where
  "v150 = Version 1 5 0 [] []"
definition registryK :: "string versionedMap" where
  "registryK = [(''K'', [Versioned v120 ''one'', Versioned v200 ''two''])]"


text \<open>Resources with an unknown or secret ID or URN, a remote component, and options.\<close>

definition customUnknownID :: Resource where
  "customUnknownID = Res 7 Custom (Resolves ''urn:U'' True False) (Resolves [] False False) []"

definition customSecretID :: Resource where
  "customSecretID = Res 8 Custom (Resolves ''urn:S'' True False) (Resolves ''s'' True True) []"

definition unknownURN :: Resource where
  "unknownURN = Res 9 RemoteComponent (Resolves [] False False) (Resolves [] False False) []"

definition remoteR :: Resource where
  "remoteR = Res 10 RemoteComponent (Resolves ''urn:R'' True False) (Resolves [] False False) []"

definition errorOnOutputOpts :: "marshalOptions option" where
  "errorOnOutputOpts = Some \<lparr>ErrorOnOutput = True, ExcludeResourceRefsFromDeps = False\<rparr>"

definition excludeRefsOpts :: "marshalOptions option" where
  "excludeRefsOpts = Some \<lparr>ErrorOnOutput = False, ExcludeResourceRefsFromDeps = True\<rparr>"


text \<open>
  Outputs: an int Output passed where its element type is neither convertible nor assignable,
  a secret string Output that depends on the component C, and a plain known string Output.
\<close>

definition mistypedOutput :: GoValue where
  "mistypedOutput =
     OutputValue ''pulumi.IntOutput'' (NotAssignable ''pulumi.IntOutput as string'')
       (Settling (IntValue True 1) True False []) (StructValue True [])"

definition secretOutput :: GoValue where
  "secretOutput =
     OutputValue ''pulumi.StringOutput'' TypesAgree
       (Settling (StringValue True ''x'') True True [resC]) (StructValue True [])"

definition plainOutput :: GoValue where
  "plainOutput =
     OutputValue ''pulumi.StringOutput'' TypesAgree
       (Settling (StringValue True ''x'') True False []) (StructValue True [])"

text \<open>
  The structs of the specification's scenarios, \<^verbatim>\<open>{A *int `pulumi:"a"`}\<close> with a nil pointer and
  \<^verbatim>\<open>{A string `pulumi:"a"`}\<close> with the value x, and a struct with a flagged tag, an untagged
  field and a nil field.
\<close>

definition structNilA :: "(string \<times> GoValue) list" where
  "structNilA = [(''a'', NilPtr)]"

definition structStringA :: "(string \<times> GoValue) list" where
  "structStringA = [(''a'', StringValue True ''x'')]"

definition structMixed :: "(string \<times> GoValue) list" where
  "structMixed = [(''a,optional'', StringValue True ''x''), ([], IntValue True 1), (''b'', NilPtr)]"

text \<open>
  A world without a registered constructor for the references below; the accessors of URNs
  and type tokens are tabulated for the three URNs used.
\<close>

definition bareWorld :: "string world" where
  "bareWorld = \<lparr>
     resourcePackages = [],
     resourceModules = [],
     ParseTolerant = (\<lambda>s. if s = ''1.2.0'' then Some v120 else None),
     urnName = (\<lambda>u. ''name''),
     urnType = (\<lambda>u. if u = ''urn:prov'' then ''pulumi:providers:aws'' else ''aws:s3:Bucket''),
     HasModuleMember = (\<lambda>t. True),
     typeModule = (\<lambda>t. if t = ''pulumi:providers:aws'' then ''pulumi:providers'' else ''aws:s3''),
     typeName = (\<lambda>t. if t = ''pulumi:providers:aws'' then ''aws'' else ''Bucket''),
     IsInternalPropertyKey = (\<lambda>k. take 2 k = ''__''),
     assetAssignableTo = (\<lambda>t. t = DAssetInterface \<or> t = DAnyInterface),
     archiveAssignableTo = (\<lambda>t. t = DArchiveInterface \<or> t = DAnyInterface),
     resourceFitsInterface = (\<lambda>r t. t = DAnyInterface),
     resourceAssignableTo = (\<lambda>r t. False)
   \<rparr>"

text \<open>The callback of \<^verbatim>\<open>TestOutputApply\<close>.\<close>

definition addOne :: "int \<Rightarrow> int applied" where
  "addOne v = ReturnsValue (v + 1)"



section \<open>The dependency aggregator\<close>

lemma recordAll_Nil [simp]: "recordAll deps [] = deps"
  by (simp add: recordAll_def)

lemma recordAll_append [simp]: "recordAll deps (xs @ ys) = recordAll (recordAll deps xs) ys"
  by (simp add: recordAll_def)

lemma recordAll_single [simp]: "recordAll deps [r] = AList.update (urnOf r) r deps"
  by (simp add: recordAll_def)

lemma recordURN_resolves:
  "urnResolves r \<Longrightarrow> recordURN deps r = Returned (AList.update (urnOf r) r deps)"
  by (cases r rule: urnResolves.cases) (simp_all add: recordURN_def)

lemma addDependency_contributes:
  "(\<forall>r \<in> set (contributes NilResource res). urnResolves r) \<Longrightarrow>
     addDependency deps res NilResource = Returned (recordAll deps (contributes NilResource res))"
  "(\<forall>r \<in> set (contributesAll NilResource rs). urnResolves r) \<Longrightarrow>
     addChildren deps rs NilResource = Returned (recordAll deps (contributesAll NilResource rs))"
proof (induction deps res "NilResource" and deps rs "NilResource" rule: addDependency_addChildren.induct)
  case (1 deps)
  then show ?case by simp
next
  case (2 deps a k u i cs)
  then show ?case by (auto simp: recordURN_resolves)
next
  case (3 deps)
  then show ?case by simp
next
  case (4 deps child rest)
  then show ?case by auto
qed

lemma recordAll_keys: "fst ` set (recordAll deps rs) = fst ` set deps \<union> urnOf ` set rs"
  by (induction rs arbitrary: deps) (auto simp: recordAll_def dom_update image_iff)

lemma recordAll_distinct: "distinct (map fst deps) \<Longrightarrow> distinct (map fst (recordAll deps rs))"
  by (induction rs arbitrary: deps) (auto simp: recordAll_def distinct_update)

lemma set_update_subset: "set (AList.update k v al) \<subseteq> insert (k, v) (set al)"
  by (induction al) auto

lemma recordAll_entries:
  "(u, r) \<in> set (recordAll deps rs) \<Longrightarrow> (u, r) \<in> set deps \<or> (r \<in> set rs \<and> urnOf r = u)"
proof (induction rs arbitrary: deps)
  case Nil then show ?case by simp
next
  case (Cons x xs)
  from Cons.prems have "(u, r) \<in> set (recordAll (AList.update (urnOf x) x deps) xs)"
    by (simp add: recordAll_def)
  from Cons.IH[OF this] have "(u, r) \<in> set (AList.update (urnOf x) x deps) \<or> (r \<in> set xs \<and> urnOf r = u)" .
  moreover have "set (AList.update (urnOf x) x deps) \<subseteq> insert (urnOf x, x) (set deps)"
    by (rule set_update_subset)
  ultimately show ?case by auto
qed

text \<open>
  The hypothesis of the next theorem is needed: when the URN output of a contributing
  resource is rejected, the aggregator returns that rejection.
\<close>

lemma recordURN_rejected:
  "\<not> urnResolves r \<Longrightarrow> r \<noteq> NilResource \<Longrightarrow> \<exists>msg. recordURN deps r = Failed (Rejected msg)"
  by (cases r rule: urnResolves.cases) (simp_all add: recordURN_def)

lemma addDependency_rejected:
  "\<exists>r \<in> set (contributes NilResource res). \<not> urnResolves r
     \<Longrightarrow> \<exists>msg. addDependency deps res NilResource = Failed (Rejected msg)"
  "\<exists>r \<in> set (contributesAll NilResource rs). \<not> urnResolves r
     \<Longrightarrow> \<exists>msg. addChildren deps rs NilResource = Failed (Rejected msg)"
proof (induction deps res "NilResource" and deps rs "NilResource"
         rule: addDependency_addChildren.induct)
  case (1 deps)
  then show ?case by simp
next
  case (2 deps a k u i cs)
  show ?case
  proof (cases "k = Custom")
    case True
    with 2 show ?thesis using recordURN_rejected[of "Res a k u i cs" deps] by auto
  next
    case False
    show ?thesis
    proof (cases "\<exists>r \<in> set (contributesAll NilResource cs). \<not> urnResolves r")
      case True
      with 2 False show ?thesis by auto
    next
      case allok: False
      then have "addChildren deps cs NilResource = Returned (recordAll deps (contributesAll NilResource cs))"
        using addDependency_contributes(2)[of cs deps] by blast
      moreover from allok "2.prems" False have "keepDependency k" "\<not> urnResolves (Res a k u i cs)"
        by (auto split: if_splits)
      ultimately show ?thesis
        using False recordURN_rejected[of "Res a k u i cs" "recordAll deps (contributesAll NilResource cs)"]
        by auto
    qed
  qed
next
  case (3 deps)
  then show ?case by simp
next
  case (4 deps child rest)
  show ?case
  proof (cases "\<exists>r \<in> set (contributes NilResource child). \<not> urnResolves r")
    case True
    with 4 show ?thesis by auto
  next
    case False
    then have "addDependency deps child NilResource = Returned (recordAll deps (contributes NilResource child))"
      using addDependency_contributes(1)[of child deps] by blast
    moreover from False "4.prems" have "\<exists>r \<in> set (contributesAll NilResource rest). \<not> urnResolves r"
      by auto
    ultimately show ?thesis using 4 by auto
  qed
qed

lemma expandDependencies_rejected:
  "\<exists>r \<in> set (contributesAll NilResource roots). \<not> urnResolves r
     \<Longrightarrow> \<exists>msg. expandDependencies roots = Failed (Rejected msg)"
  unfolding expandDependencies_def by (rule addDependency_rejected(2))

text \<open>
  Claim C1. For every list of roots whose contributing resources have URN outputs that
  resolve, \<open>expandDependencies\<close> returns a map whose keys are exactly the URNs of the
  resources that the recursive rule makes contribute, with \<open>from\<close> nil: a custom resource
  contributes itself and its children are not visited, a non-custom resource equal to
  \<open>from\<close> contributes nothing, any other resource contributes what its children contribute and
  then itself if it keeps its dependency. Every key is mapped to a contributing resource with
  that URN.
\<close>

theorem expandDependencies_rule:
  assumes "\<forall>r \<in> set (contributesAll NilResource roots). urnResolves r"
  shows "\<exists>deps. expandDependencies roots = Returned deps
           \<and> distinct (map fst deps)
           \<and> fst ` set deps = urnOf ` set (contributesAll NilResource roots)
           \<and> (\<forall>(u, r) \<in> set deps. r \<in> set (contributesAll NilResource roots) \<and> urnOf r = u)"
proof -
  let ?d = "recordAll [] (contributesAll NilResource roots)"
  have "expandDependencies roots = Returned ?d"
    unfolding expandDependencies_def using assms by (rule addDependency_contributes(2))
  moreover have "distinct (map fst ?d)" by (rule recordAll_distinct) simp
  moreover have "fst ` set ?d = urnOf ` set (contributesAll NilResource roots)"
    by (simp add: recordAll_keys)
  moreover have "\<forall>(u, r) \<in> set ?d. r \<in> set (contributesAll NilResource roots) \<and> urnOf r = u"
    using recordAll_entries[of _ _ "[]"] by fastforce
  ultimately show ?thesis by blast
qed

text \<open>
  The scenario of the specification: for the root C the result is the set of the URNs of A,
  B and E.
\<close>

theorem expandDependencies_rule_witness:
  "\<exists>deps. expandDependencies [resC] = Returned deps \<and> fst ` set deps = {''urn:A'', ''urn:B'', ''urn:E''}"
proof -
  have "\<forall>r \<in> set (contributesAll NilResource [resC]). urnResolves r"
    by (simp add: resA_def resB_def resC_def resD_def resE_def)
  from expandDependencies_rule[OF this] obtain deps where
    "expandDependencies [resC] = Returned deps"
    "fst ` set deps = urnOf ` set (contributesAll NilResource [resC])" by blast
  moreover have "urnOf ` set (contributesAll NilResource [resC]) = {''urn:A'', ''urn:B'', ''urn:E''}"
    by (simp add: resA_def resB_def resC_def resD_def resE_def)
  ultimately show ?thesis by simp
qed


text \<open>Only a rejected URN output makes the aggregator fail; the keys of its map stay distinct.\<close>

lemma addDependency_failures:
  "addDependency deps res from = Failed e \<Longrightarrow> \<exists>msg. e = Rejected msg"
  "addChildren deps rs from = Failed e \<Longrightarrow> \<exists>msg. e = Rejected msg"
proof (induction deps res "from" and deps rs "from" rule: addDependency_addChildren.induct)
  case (2 deps a k u i cs "from")
  then show ?case
    by (cases u) (auto simp: recordURN_def split: if_splits outcome.splits)
qed (auto split: if_splits outcome.splits)

lemma expandDependencies_failures:
  "expandDependencies rs = Failed e \<Longrightarrow> \<exists>msg. e = Rejected msg"
  unfolding expandDependencies_def by (rule addDependency_failures(2))

lemma recordURN_distinct:
  "recordURN deps r = Returned deps' \<Longrightarrow> distinct (map fst deps) \<Longrightarrow> distinct (map fst deps')"
  by (auto simp: recordURN_def distinct_update split: outcome.splits)

lemma addDependency_distinct:
  "addDependency deps res from = Returned deps' \<Longrightarrow> distinct (map fst deps) \<Longrightarrow> distinct (map fst deps')"
  "addChildren deps rs from = Returned deps' \<Longrightarrow> distinct (map fst deps) \<Longrightarrow> distinct (map fst deps')"
proof (induction deps res "from" and deps rs "from" arbitrary: deps' and deps' rule: addDependency_addChildren.induct)
  case (2 deps a k u i cs "from")
  then show ?case
    by (auto split: if_splits outcome.splits dest: recordURN_distinct)
qed (auto split: if_splits outcome.splits)

lemma expandDependencies_distinct:
  "expandDependencies rs = Returned depSet \<Longrightarrow> distinct (map fst depSet)"
  unfolding expandDependencies_def using addDependency_distinct(2)[of "[]" rs NilResource depSet] by simp

lemma expandDependencies_Nil [simp]: "expandDependencies [] = Returned []"
  by (simp add: expandDependencies_def)

section \<open>The versioned registry\<close>

text \<open>\<open>Compare\<close> is a total preorder.\<close>

lemma comparePR_range: "comparePR a b = 0 \<or> comparePR a b = 1 \<or> comparePR a b = - 1"
  by (simp add: comparePR_def)

lemma comparePR_refl: "comparePR a a = 0"
  by (simp add: comparePR_def)

lemma comparePR_sym: "comparePR b a = - comparePR a b"
  by (auto simp: comparePR_def)

lemma comparePR_eq_left: "comparePR a b = 0 \<Longrightarrow> comparePR a c = comparePR b c"
  by (auto simp: comparePR_def split: if_splits)

lemma comparePR_trans_gt: "comparePR a b = 1 \<Longrightarrow> comparePR b c = 1 \<Longrightarrow> comparePR a c = 1"
  by (auto simp: comparePR_def split: if_splits)

lemma comparePre_refl: "comparePre a a = 0"
  by (induction a) (simp_all add: comparePR_refl)

lemma comparePre_range: "comparePre a b = 0 \<or> comparePre a b = 1 \<or> comparePre a b = - 1"
  by (induction a b rule: comparePre.induct) auto

lemma comparePre_sym: "comparePre b a = - comparePre a b"
proof (induction a b rule: comparePre.induct)
  case (4 x xs y ys)
  show ?case
    using 4 comparePR_range[of x y] comparePR_sym[of y x] by auto
qed simp_all

lemma comparePre_trans:
  "comparePre a b \<ge> 0 \<Longrightarrow> comparePre b c \<ge> 0 \<Longrightarrow> comparePre a c \<ge> 0"
proof (induction a b arbitrary: c rule: comparePre.induct)
  case 1
  then show ?case by simp
next
  case (2 y ys)
  then show ?case by simp
next
  case (3 x xs)
  then show ?case by (cases c) simp_all
next
  case (4 x xs y ys)
  show ?case
  proof (cases c)
    case Nil
    then show ?thesis by simp
  next
    case (Cons z zs)
    from "4.prems"(1) have xy: "comparePR x y = 0 \<or> comparePR x y = 1"
      by (auto split: if_splits)
    from "4.prems"(2) Cons have yz: "comparePR y z = 0 \<or> comparePR y z = 1"
      by (auto split: if_splits)
    show ?thesis
    proof (cases "comparePR x y = 0")
      case True
      then have xz: "comparePR x z = comparePR y z" by (rule comparePR_eq_left)
      show ?thesis
      proof (cases "comparePR y z = 0")
        case True
        with "4.prems" Cons \<open>comparePR x y = 0\<close> xz "4.IH"[of zs] show ?thesis by simp
      next
        case False
        with yz xz Cons show ?thesis by simp
      qed
    next
      case False
      with xy have x1: "comparePR x y = 1" by simp
      show ?thesis
      proof (cases "comparePR y z = 0")
        case True
        have "comparePR z y = 0" using True comparePR_sym[of z y] by simp
        then have "comparePR z x = comparePR y x" by (rule comparePR_eq_left)
        then have "comparePR x z = 1" using x1 comparePR_sym[of x z] comparePR_sym[of x y] by simp
        with Cons show ?thesis by simp
      next
        case False
        with yz have "comparePR y z = 1" by simp
        with x1 have "comparePR x z = 1" by (rule comparePR_trans_gt)
        with Cons show ?thesis by simp
      qed
    qed
  qed
qed

lemma Compare_range: "Compare a b = 0 \<or> Compare a b = 1 \<or> Compare a b = - 1"
  using comparePre_range[of "Pre a" "Pre b"] by (auto simp: Compare_def)

lemma Compare_sym: "Compare b a = - Compare a b"
  using comparePre_sym[of "Pre b" "Pre a"] by (auto simp: Compare_def)

lemma GTE_refl: "GTE a a"
  by (simp add: GTE_def Compare_def comparePre_refl)

lemma GTE_total: "GTE a b \<or> GTE b a"
  using Compare_sym[of a b] by (auto simp: GTE_def)

lemma GTE_trans: "GTE a b \<Longrightarrow> GTE b c \<Longrightarrow> GTE a c"
  using comparePre_trans[of "Pre a" "Pre b" "Pre c"]
  by (auto simp: GTE_def Compare_def split: if_splits)


lemma loadScan_exact:
  "find (\<lambda>v. EQ (getVersion v) version)
        (filter (\<lambda>v. wildcard \<or> Major (getVersion v) = Major version) vs) = Some e
   \<Longrightarrow> loadScan wildcard version best vs = (Some e, True)"
  by (induction vs arbitrary: best) (auto split: if_splits option.splits)

lemma loadScan_best:
  "find (\<lambda>v. EQ (getVersion v) version)
        (filter (\<lambda>v. wildcard \<or> Major (getVersion v) = Major version) vs) = None
   \<Longrightarrow> \<exists>m. loadScan wildcard version (Some b) vs = (Some m, True)
          \<and> (m = b \<or> m \<in> set (filter (\<lambda>v. wildcard \<or> Major (getVersion v) = Major version) vs))
          \<and> GTE (getVersion m) (getVersion b)
          \<and> (\<forall>c \<in> set (filter (\<lambda>v. wildcard \<or> Major (getVersion v) = Major version) vs).
                GTE (getVersion m) (getVersion c))"
proof (induction vs arbitrary: b)
  case Nil
  then show ?case by (simp add: GTE_refl)
next
  case (Cons v vs)
  let ?P = "\<lambda>v. wildcard \<or> Major (getVersion v) = Major version"
  show ?case
  proof (cases "?P v")
    case False
    with Cons.prems have "find (\<lambda>v. EQ (getVersion v) version) (filter ?P vs) = None" by simp
    from Cons.IH[OF this, of b] False show ?thesis by auto
  next
    case True
    with Cons.prems have ne: "\<not> EQ (getVersion v) version"
      and rest: "find (\<lambda>v. EQ (getVersion v) version) (filter ?P vs) = None"
      by (auto split: if_splits)
    show ?thesis
    proof (cases "GTE (getVersion v) (getVersion b)")
      case gte: True
      from Cons.IH[OF rest, of v] obtain m where
        m: "loadScan wildcard version (Some v) vs = (Some m, True)"
           "m = v \<or> m \<in> set (filter ?P vs)"
           "GTE (getVersion m) (getVersion v)"
           "\<forall>c \<in> set (filter ?P vs). GTE (getVersion m) (getVersion c)" by blast
      have "GTE (getVersion m) (getVersion b)" using m(3) gte by (rule GTE_trans)
      with m True ne gte show ?thesis by auto
    next
      case ngte: False
      then have bv: "GTE (getVersion b) (getVersion v)" using GTE_total by blast
      from Cons.IH[OF rest, of b] obtain m where
        m: "loadScan wildcard version (Some b) vs = (Some m, True)"
           "m = b \<or> m \<in> set (filter ?P vs)"
           "GTE (getVersion m) (getVersion b)"
           "\<forall>c \<in> set (filter ?P vs). GTE (getVersion m) (getVersion c)" by blast
      have "GTE (getVersion m) (getVersion v)" using m(3) bv by (rule GTE_trans)
      with m True ne ngte show ?thesis by auto
    qed
  qed
qed

lemma loadScan_none:
  "find (\<lambda>v. EQ (getVersion v) version)
        (filter (\<lambda>v. wildcard \<or> Major (getVersion v) = Major version) vs) = None
   \<Longrightarrow> (filter (\<lambda>v. wildcard \<or> Major (getVersion v) = Major version) vs = []
          \<longrightarrow> loadScan wildcard version None vs = (None, False))
     \<and> (filter (\<lambda>v. wildcard \<or> Major (getVersion v) = Major version) vs \<noteq> []
          \<longrightarrow> (\<exists>m \<in> set (filter (\<lambda>v. wildcard \<or> Major (getVersion v) = Major version) vs).
                 loadScan wildcard version None vs = (Some m, True)
                 \<and> (\<forall>c \<in> set (filter (\<lambda>v. wildcard \<or> Major (getVersion v) = Major version) vs).
                       GTE (getVersion m) (getVersion c))))"
proof (induction vs)
  case Nil
  then show ?case by simp
next
  case (Cons v vs)
  let ?P = "\<lambda>v. wildcard \<or> Major (getVersion v) = Major version"
  show ?case
  proof (cases "?P v")
    case False
    with Cons.prems have "find (\<lambda>v. EQ (getVersion v) version) (filter ?P vs) = None" by simp
    from Cons.IH[OF this] False show ?thesis by auto
  next
    case True
    with Cons.prems have ne: "\<not> EQ (getVersion v) version"
      and rest: "find (\<lambda>v. EQ (getVersion v) version) (filter ?P vs) = None"
      by (auto split: if_splits)
    from loadScan_best[OF rest, of v] obtain m where
      m: "loadScan wildcard version (Some v) vs = (Some m, True)"
         "m = v \<or> m \<in> set (filter ?P vs)"
         "GTE (getVersion m) (getVersion v)"
         "\<forall>c \<in> set (filter ?P vs). GTE (getVersion m) (getVersion c)" by blast
    with True ne show ?thesis by auto
  qed
qed

lemma loadScan_found:
  "loadScan wildcard version best vs = (r, ok) \<Longrightarrow> ok = (r \<noteq> None)"
  by (induction vs arbitrary: best) (auto split: if_splits option.splits)

text \<open>
  Claim C4. The candidates of \<open>Load\<close> are all entries under the key when the version is the
  wildcard, and the entries of the requested major version otherwise. The first candidate
  whose version equals the requested one is returned as found. When no candidate is equal,
  the lookup finds nothing exactly when there is no candidate, and otherwise returns a
  candidate whose version is greater than or equal to that of every candidate.
\<close>

theorem Load_rule:
  "(\<forall>e. find (\<lambda>v. EQ (getVersion v) version) (candidates vm key version) = Some e
        \<longrightarrow> Load vm key version = (Some e, True))
   \<and> (find (\<lambda>v. EQ (getVersion v) version) (candidates vm key version) = None
        \<longrightarrow> (candidates vm key version = [] \<longrightarrow> Load vm key version = (None, False))
          \<and> (candidates vm key version \<noteq> []
               \<longrightarrow> (\<exists>best \<in> set (candidates vm key version).
                      Load vm key version = (Some best, True)
                      \<and> (\<forall>c \<in> set (candidates vm key version).
                            GTE (getVersion best) (getVersion c)))))
   \<and> (snd (Load vm key version) = False \<longleftrightarrow> candidates vm key version = [])"
proof -
  let ?c = "candidates vm key version"
  let ?E = "\<lambda>v. EQ (getVersion v) version"
  have exact: "Load vm key version = (Some e, True)" if "find ?E ?c = Some e" for e
    using that unfolding Load_def candidates_def by (rule loadScan_exact)
  have scan: "(?c = [] \<longrightarrow> Load vm key version = (None, False))
      \<and> (?c \<noteq> [] \<longrightarrow> (\<exists>best \<in> set ?c. Load vm key version = (Some best, True)
                \<and> (\<forall>c \<in> set ?c. GTE (getVersion best) (getVersion c))))"
    if "find ?E ?c = None"
    using that unfolding Load_def candidates_def by (rule loadScan_none)
  have found: "snd (Load vm key version) = False \<longleftrightarrow> ?c = []"
  proof (cases "find ?E ?c")
    case None
    from scan[OF None] show ?thesis by (cases "?c = []") auto
  next
    case (Some e)
    then have "?c \<noteq> []" by auto
    with exact[OF Some] show ?thesis by simp
  qed
  from exact scan found show ?thesis by blast
qed

lemma registryK_stored:
  "Store [] ''K'' (Versioned v120 ''one'') = Returned [(''K'', [Versioned v120 ''one''])]"
  "Store [(''K'', [Versioned v120 ''one''])] ''K'' (Versioned v200 ''two'') = Returned registryK"
  by (simp_all add: Store_def registryK_def versionsAt_def hasVersion_def EQ_def Compare_def v120_def v200_def)

text \<open>
  The scenario of the specification: with 1.2.0 and 2.0.0 registered under K, the lookup at
  1.5.0 returns the 1.2.0 entry, the wildcard lookup returns an entry, and the lookup of
  another key finds nothing.
\<close>

theorem Load_rule_witness:
  "Load registryK ''K'' v150 = (Some (Versioned v120 ''one''), True)
   \<and> (\<exists>e \<in> set (versionsAt registryK ''K''). Load registryK ''K'' nullVersion = (Some e, True))
   \<and> Load registryK ''other'' v150 = (None, False)"
proof -
  have c1: "candidates registryK ''K'' v150 = [Versioned v120 ''one'']"
    by (simp add: candidates_def registryK_def versionsAt_def EQ_def Compare_def v120_def v200_def v150_def nullVersion_def)
  have c2: "candidates registryK ''K'' nullVersion = versionsAt registryK ''K''"
    by (simp add: candidates_def registryK_def versionsAt_def EQ_def Compare_def nullVersion_def)
  have c3: "candidates registryK ''other'' v150 = []"
    by (simp add: candidates_def registryK_def versionsAt_def)
  have f1: "find (\<lambda>v. EQ (getVersion v) v150) (candidates registryK ''K'' v150) = None"
    unfolding c1 by (simp add: EQ_def Compare_def v120_def v150_def)
  have f2: "find (\<lambda>v. EQ (getVersion v) nullVersion) (candidates registryK ''K'' nullVersion) = None"
    unfolding c2 by (simp add: registryK_def versionsAt_def EQ_def Compare_def v120_def v200_def nullVersion_def)
  have f3: "find (\<lambda>v. EQ (getVersion v) v150) (candidates registryK ''other'' v150) = None"
    unfolding c3 by simp
  from Load_rule[of v150 registryK "''K''"] f1 c1
  have "Load registryK ''K'' v150 = (Some (Versioned v120 ''one''), True)" by simp
  moreover from Load_rule[of nullVersion registryK "''K''"] f2 c2
  have "\<exists>e \<in> set (versionsAt registryK ''K''). Load registryK ''K'' nullVersion = (Some e, True)"
    by (auto simp: registryK_def versionsAt_def)
  moreover from Load_rule[of v150 registryK "''other''"] f3 c3
  have "Load registryK ''other'' v150 = (None, False)" by simp
  ultimately show ?thesis by blast
qed


section \<open>The marshaler\<close>

text \<open>A marshaled value that is Null comes with no dependencies.\<close>

lemma marshalResource_not_Null: "marshalResource opts r \<noteq> Returned (Null, d)"
  by (auto simp: marshalResource_def MakeCustomResourceReference_def MakeComponentResourceReference_def Let_def
        split: outcome.splits if_splits prod.splits)

lemma wrapOutput_not_Null: "wrapOutput el k s ds \<noteq> Returned (Null, d)"
  by (auto simp: wrapOutput_def split: outcome.splits)

lemma marshalSlice_shape:
  "marshalSlice opts arr deps elems = Returned (pv, d) \<Longrightarrow> \<exists>arr'. pv = ArrayProperty arr'"
  by (induction elems arbitrary: arr deps) (auto split: outcome.splits)

lemma marshalMap_shape:
  "marshalMap opts obj deps entries = Returned (pv, d) \<Longrightarrow> \<exists>obj'. pv = ObjectProperty obj'"
  by (induction entries arbitrary: obj deps) (auto split: outcome.splits)

lemma marshalStruct_shape:
  "marshalStruct opts obj deps flds = Returned (pv, d) \<Longrightarrow> \<exists>obj'. pv = ObjectProperty obj'"
  by (induction flds arbitrary: obj deps) (auto split: outcome.splits if_splits)

lemma marshal_Null_no_deps:
  "marshalInputOptionsImpl opts skip v = Returned (Null, d) \<Longrightarrow> d = []"
  "awaitOutput opts tname st = Returned (Null, d) \<Longrightarrow> d = []"
  "marshalSlice opts arr deps elems = marshalSlice opts arr deps elems"
  "marshalMap opts obj deps entries = marshalMap opts obj deps entries"
  "marshalStruct opts obj deps flds = marshalStruct opts obj deps flds"
  "marshalAssets opts assets entries = marshalAssets opts assets entries"
proof (induction opts skip v and opts tname st and opts arr deps elems
         and opts obj deps entries and opts obj deps flds and opts assets entries
         arbitrary: d and d
         rule: marshalInputOptionsImpl_awaitOutput_marshalSlice_marshalMap_marshalStruct_marshalAssets.induct)
  case (3 opts skipInputCheck tc raw)
  then show ?case by (cases tc) (auto split: if_splits)
next
  case (4 opts skipInputCheck tname tc outp raw)
  then show ?case by (cases tc) (auto split: if_splits)
next
  case (6 opts skipInputCheck invalid assets path uri)
  then show ?case by (auto split: if_splits option.splits outcome.splits)
next
  case (7 opts skipInputCheck r)
  then show ?case by (simp add: marshalResource_not_Null)
next
  case (16 opts skipInputCheck elems)
  then show ?case by (auto dest: marshalSlice_shape)
next
  case (19 opts skipInputCheck entries)
  then show ?case by (auto dest: marshalMap_shape)
next
  case (20 opts skipInputCheck assignable flds)
  then show ?case by (auto dest: marshalStruct_shape split: if_splits)
next
  case (22 opts tname st)
  then show ?case
    by (cases st) (auto simp: wrapOutput_not_Null split: if_splits outcome.splits)
qed (auto split: if_splits)



subsection \<open>Resources\<close>

text \<open>
  Claim C9, as stated, fails: the code awaits the ID of a custom resource and discards its
  known flag. A custom resource whose ID is unknown is marshaled to a reference, with no
  assertion failure.
\<close>

theorem marshalResource_ID_known_counterexample:
  "ID customUnknownID = Resolves [] False False
   \<and> marshalInputOptionsImpl None False (ResourceValue customUnknownID)
       = Returned (ResourceReferenceProperty ''urn:U'' (HasID []) [], [customUnknownID])"
  by (simp add: customUnknownID_def marshalResource_def includeResourceRefs_def
        MakeCustomResourceReference_def)

text \<open>
  Claim C9, amended. Marshaling a resource whose URN output resolves panics unless the URN is
  known and not secret, and for a custom resource whose ID output resolves it panics when the
  ID is secret; whether the ID is known is not checked. Otherwise the result is a resource
  reference, with the ID for a custom resource and without one for any other, and the
  dependencies are the resource itself unless the options exclude resource references.
\<close>

theorem marshalResource_asserts:
  "(\<not> known \<longrightarrow>
      marshalInputOptionsImpl opts skip (ResourceValue (Res a k (Resolves urn known secretURN) i cs))
        = Panicked ''URN must be known'')
   \<and> (known \<and> secretURN \<longrightarrow>
      marshalInputOptionsImpl opts skip (ResourceValue (Res a k (Resolves urn known secretURN) i cs))
        = Panicked ''URN must not be secret'')
   \<and> (known \<and> \<not> secretURN \<and> k = Custom \<and> i = Resolves rid idKnown True \<longrightarrow>
      marshalInputOptionsImpl opts skip (ResourceValue (Res a k (Resolves urn known secretURN) i cs))
        = Panicked ''CustomResource must not have a secret ID'')
   \<and> (known \<and> \<not> secretURN \<and> k = Custom \<and> i = Resolves rid idKnown False \<longrightarrow>
      marshalInputOptionsImpl opts skip (ResourceValue (Res a k (Resolves urn known secretURN) i cs))
        = Returned (ResourceReferenceProperty urn (HasID rid) [],
                    if includeResourceRefs opts then [Res a k (Resolves urn known secretURN) i cs] else []))
   \<and> (known \<and> \<not> secretURN \<and> k \<noteq> Custom \<longrightarrow>
      marshalInputOptionsImpl opts skip (ResourceValue (Res a k (Resolves urn known secretURN) i cs))
        = Returned (ResourceReferenceProperty urn NoID [],
                    if includeResourceRefs opts then [Res a k (Resolves urn known secretURN) i cs] else []))"
  by (simp add: marshalResource_def MakeCustomResourceReference_def MakeComponentResourceReference_def)

text \<open>
  Instances: an unknown URN and a secret ID panic; a custom resource and a remote component
  give references, and the option empties the dependencies.
\<close>

theorem marshalResource_asserts_witness:
  "marshalInputOptionsImpl None False (ResourceValue unknownURN) = Panicked ''URN must be known''
   \<and> marshalInputOptionsImpl None False (ResourceValue customSecretID)
       = Panicked ''CustomResource must not have a secret ID''
   \<and> marshalInputOptionsImpl None False (ResourceValue resA)
       = Returned (ResourceReferenceProperty ''urn:A'' (HasID ''a'') [], [resA])
   \<and> marshalInputOptionsImpl excludeRefsOpts False (ResourceValue resA)
       = Returned (ResourceReferenceProperty ''urn:A'' (HasID ''a'') [], [])
   \<and> marshalInputOptionsImpl None False (ResourceValue remoteR)
       = Returned (ResourceReferenceProperty ''urn:R'' NoID [], [remoteR])"
  using
    marshalResource_asserts[where known=False and opts=None and skip=False and a=9
      and k=RemoteComponent and urn="[]" and secretURN=False and i="Resolves [] False False" and cs="[]"]
    marshalResource_asserts[where known=True and opts=None and skip=False and a=8 and k=Custom
      and urn="''urn:S''" and secretURN=False and i="Resolves ''s'' True True" and cs="[]"
      and rid="''s''" and idKnown=True]
    marshalResource_asserts[where known=True and opts=None and skip=False and a=1 and k=Custom
      and urn="''urn:A''" and secretURN=False and i="Resolves ''a'' True False" and cs="[]"
      and rid="''a''" and idKnown=True]
    marshalResource_asserts[where known=True and opts=excludeRefsOpts and skip=False and a=1
      and k=Custom and urn="''urn:A''" and secretURN=False and i="Resolves ''a'' True False"
      and cs="[]" and rid="''a''" and idKnown=True]
    marshalResource_asserts[where known=True and opts=None and skip=False and a=10
      and k=RemoteComponent and urn="''urn:R''" and secretURN=False
      and i="Resolves [] False False" and cs="[]"]
  by (simp add: unknownURN_def customSecretID_def resA_def remoteR_def includeResourceRefs_def excludeRefsOpts_def)


subsection \<open>Outputs\<close>

lemma marshalResource_failures:
  "marshalResource opts r = Failed e \<Longrightarrow> \<exists>msg. e = Rejected msg"
  by (cases r rule: awaitURN.cases; cases "ID r")
     (auto simp: marshalResource_def Let_def split: if_splits outcome.splits)

lemma wrapOutput_failures:
  "wrapOutput element known secret outputDeps = Failed e \<Longrightarrow> \<exists>msg. e = Rejected msg"
  by (auto simp: wrapOutput_def split: outcome.splits dest: expandDependencies_failures)

lemma marshal_never_CannotMarshalOutput:
  "\<not> errorOnOutput opts \<Longrightarrow> marshalInputOptionsImpl opts skip v \<noteq> Failed (CannotMarshalOutput m)"
  "\<not> errorOnOutput opts \<Longrightarrow> awaitOutput opts tname st \<noteq> Failed (CannotMarshalOutput m)"
  "\<not> errorOnOutput opts \<Longrightarrow> marshalSlice opts arr deps elems \<noteq> Failed (CannotMarshalOutput m)"
  "\<not> errorOnOutput opts \<Longrightarrow> marshalMap opts obj deps entries \<noteq> Failed (CannotMarshalOutput m)"
  "\<not> errorOnOutput opts \<Longrightarrow> marshalStruct opts obj deps flds \<noteq> Failed (CannotMarshalOutput m)"
  "\<not> errorOnOutput opts \<Longrightarrow> marshalAssets opts assets entries \<noteq> Failed (CannotMarshalOutput m)"
proof (induction opts skip v and opts tname st and opts arr deps elems
         and opts obj deps entries and opts obj deps flds and opts assets entries
         rule: marshalInputOptionsImpl_awaitOutput_marshalSlice_marshalMap_marshalStruct_marshalAssets.induct)
  case (3 opts skipInputCheck tc raw)
  then show ?case by (cases tc) (auto split: if_splits)
next
  case (4 opts skipInputCheck tname tc outp raw)
  then show ?case by (cases tc) (auto split: if_splits)
next
  case (6 opts skipInputCheck invalid assets path uri)
  then show ?case by (auto split: if_splits option.splits outcome.splits)
next
  case (7 opts skipInputCheck r)
  then show ?case by (auto dest: marshalResource_failures)
next
  case (22 opts tname st)
  then show ?case
    by (cases st) (auto split: if_splits outcome.splits dest: wrapOutput_failures)
qed (auto split: if_splits outcome.splits)

text \<open>
  Claim C2. With \<^verbatim>\<open>ErrorOnOutput\<close> unset, whenever marshaling an Output returns without error, the
  Output that was awaited (the Output itself, or the one the input conversion produced)
  settled with a value and flags such that: if it is known, not secret and without
  dependencies, the result is its marshaled element and no dependencies are reported;
  otherwise the result is an Output wire value with the awaited known and secret flags, whose
  element is the marshaled element when known and Null when not, and whose dependencies are
  the URNs of the expanded dependency set, each once, in strictly increasing string order.
\<close>

theorem marshal_Output_rule:
  assumes "\<not> errorOnOutput opts"
    and "marshalInputOptionsImpl opts False (OutputValue tname tc st raw) = Returned (pv, deps)"
  shows "\<exists>ov known secret outputDeps.
           (case tc of ConvertsTo tname' st' \<Rightarrow> st' | _ \<Rightarrow> st) = Settling ov known secret outputDeps
         \<and> (known \<and> \<not> secret \<and> outputDeps = [] \<longrightarrow>
               deps = [] \<and> (\<exists>d. marshalInputOptionsImpl opts True ov = Returned (pv, d)))
         \<and> (\<not> (known \<and> \<not> secret \<and> outputDeps = []) \<longrightarrow>
               (\<exists>element depSet urns.
                  pv = OutputProperty element known secret urns \<and> deps = outputDeps
                \<and> expandDependencies outputDeps = Returned depSet
                \<and> set urns = fst ` set depSet \<and> sorted_wrt (<) urns
                \<and> (known \<longrightarrow> (\<exists>d. marshalInputOptionsImpl opts True ov = Returned (element, d)))
                \<and> (\<not> known \<longrightarrow> element = Null)))"
proof -
  define awaitedName where "awaitedName = (case tc of ConvertsTo tname' st' \<Rightarrow> tname' | _ \<Rightarrow> tname)"
  define awaited where "awaited = (case tc of ConvertsTo tname' st' \<Rightarrow> st' | _ \<Rightarrow> st)"
  from assms(2) have run: "awaitOutput opts awaitedName awaited = Returned (pv, deps)"
    by (cases tc) (simp_all add: awaitedName_def awaited_def)
  from run assms(1) obtain ov known secret outputDeps where
    st: "awaited = Settling ov known secret outputDeps"
    by (cases awaited) (auto split: if_splits)
  have wrapped: "\<exists>depSet urns.
        pv = OutputProperty element known secret urns \<and> deps = outputDeps
      \<and> expandDependencies outputDeps = Returned depSet
      \<and> set urns = fst ` set depSet \<and> sorted_wrt (<) urns"
    if "wrapOutput element known secret outputDeps = Returned (pv, deps)" for element
  proof -
    from that obtain depSet where
      exp: "expandDependencies outputDeps = Returned depSet"
      and pv: "pv = OutputProperty element known secret (if depSet \<noteq> [] then sort (map fst depSet) else [])"
      and deps: "deps = outputDeps"
      by (auto simp: wrapOutput_def split: outcome.splits)
    have "distinct (map fst depSet)" using exp by (rule expandDependencies_distinct)
    then have "sorted_wrt (<) (sort (map fst depSet))"
      by (simp add: strict_sorted_iff)
    with exp pv deps show ?thesis by (cases "depSet = []") auto
  qed
  show ?thesis
  proof (cases "known")
    case True
    from run st True assms(1) obtain element d where
      el: "marshalInputOptionsImpl opts True ov = Returned (element, d)"
      by (auto split: outcome.splits)
    show ?thesis
    proof (cases "\<not> secret \<and> outputDeps = []")
      case direct: True
      with run st True assms(1) el have "pv = element" "deps = []" by auto
      with st True direct el show ?thesis unfolding awaited_def by auto
    next
      case False
      with run st True assms(1) el
      have "wrapOutput element known secret outputDeps = Returned (pv, deps)" by auto
      from wrapped[OF this] st True False el show ?thesis unfolding awaited_def by auto
    qed
  next
    case False
    with run st assms(1)
    have "wrapOutput Null known secret outputDeps = Returned (pv, deps)" by auto
    from wrapped[OF this] st False show ?thesis unfolding awaited_def by auto
  qed
qed

text \<open>
  Instances: a plain known Output is replaced by its element; a secret Output that depends
  on the component C is wrapped, with the URNs of A, B and E in order.
\<close>

theorem marshal_Output_rule_witness:
  "marshalInputOptionsImpl None False plainOutput = Returned (StringProperty ''x'', [])
   \<and> marshalInputOptionsImpl None False secretOutput
       = Returned (OutputProperty (StringProperty ''x'') True True [''urn:A'', ''urn:B'', ''urn:E''], [resC])
   \<and> sorted_wrt (<) [''urn:A'', ''urn:B'', ''urn:E'']"
proof -
  have off: "\<not> errorOnOutput None" by (simp add: errorOnOutput_def)
  have plain: "marshalInputOptionsImpl None False plainOutput = Returned (StringProperty ''x'', [])"
    by (simp add: plainOutput_def errorOnOutput_def)
  have expand: "expandDependencies [resC] = Returned [(''urn:A'', resA), (''urn:B'', resB), (''urn:E'', resE)]"
    by (simp add: expandDependencies_def recordURN_def resA_def resB_def resC_def resD_def resE_def)
  have wrapped: "marshalInputOptionsImpl None False secretOutput
       = Returned (OutputProperty (StringProperty ''x'') True True [''urn:A'', ''urn:B'', ''urn:E''], [resC])"
    by (simp add: secretOutput_def errorOnOutput_def wrapOutput_def expand)
  from marshal_Output_rule[OF off wrapped[unfolded secretOutput_def]]
  have "sorted_wrt (<) [''urn:A'', ''urn:B'', ''urn:E'']" by auto
  with plain wrapped show ?thesis by simp
qed

text \<open>
  Claim C8, as stated, fails: the comparison of the input's element type with the destination
  type comes before the Output check, so with \<^verbatim>\<open>ErrorOnOutput\<close> set an Output whose element type
  is neither convertible nor assignable fails with the error of that comparison.
\<close>

theorem errorOnOutput_counterexample:
  "errorOnOutput errorOnOutputOpts
   \<and> marshalInputOptionsImpl errorOnOutputOpts False mistypedOutput
       = Failed (CannotMarshalInputAs ''pulumi.IntOutput as string'')"
  by (simp add: errorOnOutputOpts_def errorOnOutput_def mistypedOutput_def)

text \<open>
  Claim C8, amended. With \<^verbatim>\<open>ErrorOnOutput\<close> set, marshaling an Output fails whatever the Output
  would settle to: with the error of the type comparison when its element type is neither
  convertible nor assignable to the destination type, and otherwise with the error that
  names the type of the Output (of the converted Output when the input was converted). With
  \<^verbatim>\<open>ErrorOnOutput\<close> unset, no value makes the marshaler return the latter error.
\<close>

theorem errorOnOutput_rule:
  "(errorOnOutput opts \<longrightarrow>
      marshalInputOptionsImpl opts False (OutputValue tname tc st raw)
        = (case tc of
             NotAssignable msg \<Rightarrow> Failed (CannotMarshalInputAs msg)
           | ConvertsTo tname' st' \<Rightarrow> Failed (CannotMarshalOutput tname')
           | _ \<Rightarrow> Failed (CannotMarshalOutput tname)))
   \<and> (\<not> errorOnOutput opts \<longrightarrow>
        marshalInputOptionsImpl opts skip v \<noteq> Failed (CannotMarshalOutput m))"
  using marshal_never_CannotMarshalOutput(1)[of opts skip v m]
  by (cases tc) auto

theorem errorOnOutput_rule_witness:
  "marshalInputOptionsImpl errorOnOutputOpts False secretOutput
     = Failed (CannotMarshalOutput ''pulumi.StringOutput'')
   \<and> marshalInputOptionsImpl None False secretOutput \<noteq> Failed (CannotMarshalOutput ''pulumi.StringOutput'')"
  using errorOnOutput_rule[where opts=errorOnOutputOpts and tname="''pulumi.StringOutput''"
          and tc=TypesAgree and st="Settling (StringValue True ''x'') True True [resC]"
          and raw="StructValue True []"]
        errorOnOutput_rule[where opts=None and skip=False and v=secretOutput
          and m="''pulumi.StringOutput''"]
  by (simp add: errorOnOutputOpts_def errorOnOutput_def secretOutput_def)

subsection \<open>Structs and top-level properties\<close>

lemma participating_Nil [simp]: "participating [] = []"
  by (simp add: participating_def)

lemma participating_Cons [simp]:
  "participating ((tag, v) # flds) =
     (if tagName tag \<noteq> [] then (tagName tag, v) # participating flds else participating flds)"
  by (simp add: participating_def)

lemma sparseFields_Nil [simp]: "sparseFields opts [] = []"
  by (simp add: sparseFields_def)

lemma sparseFields_Cons [simp]:
  "sparseFields opts ((tag, v) # flds) =
     (if tagName tag \<noteq> [] \<and> \<not> IsNull (marshaledValue opts v)
      then (tagName tag, marshaledValue opts v) # sparseFields opts flds
      else sparseFields opts flds)"
  by (simp add: sparseFields_def)

lemma objectOf_Nil [simp]: "objectOf [] obj = obj"
  by (simp add: objectOf_def)

lemma objectOf_Cons [simp]: "objectOf ((k, pv) # kvs) obj = objectOf kvs (AList.update k pv obj)"
  by (simp add: objectOf_def)

lemma marshalStruct_loop:
  "\<forall>(k, v) \<in> set (participating flds). \<exists>pv d. marshalInputOptionsImpl opts False v = Returned (pv, d)
   \<Longrightarrow> marshalStruct opts obj deps flds
       = Returned (ObjectProperty (objectOf (sparseFields opts flds) obj),
                   deps @ concat (map (\<lambda>(k, v). marshaledDeps opts v) (participating flds)))"
proof (induction flds arbitrary: obj deps)
  case Nil
  then show ?case by simp
next
  case (Cons f flds)
  obtain tag v where f: "f = (tag, v)" by (cases f)
  show ?case
  proof (cases "tagName tag = []")
    case True
    with Cons f show ?thesis by simp
  next
    case False
    with Cons.prems f obtain pv d where m: "marshalInputOptionsImpl opts False v = Returned (pv, d)"
      by auto
    from Cons.prems f False
    have rest: "\<forall>(k, v) \<in> set (participating flds). \<exists>pv d. marshalInputOptionsImpl opts False v = Returned (pv, d)"
      by simp
    from m have mv: "marshaledValue opts v = pv" and md: "marshaledDeps opts v = d"
      by (simp_all add: marshaledValue_def marshaledDeps_def)
    show ?thesis
      using Cons.IH[OF rest] f False m mv md by simp
  qed
qed

lemma marshalProperty_step:
  assumes "marshalInputOptionsImpl opts False v = Returned (pv, d)"
    and "expandDependencies d = Returned allDeps"
  shows "\<exists>acc'. marshalProperty opts acc k v = Returned acc'
           \<and> accPmap acc' = (if \<not> IsNull pv then AList.update k pv (accPmap acc) else accPmap acc)"
proof (cases "IsNull pv")
  case True
  then have "pv = Null" by (cases pv) simp_all
  with assms(1) have "d = []" using marshal_Null_no_deps(1) by blast
  with assms(2) have "allDeps = []" by simp
  with assms True show ?thesis
    by (simp add: marshalProperty_def marshalInputOptions_def recordProperty_def)
next
  case False
  with assms show ?thesis
    by (simp add: marshalProperty_def marshalInputOptions_def recordProperty_def Let_def)
qed

lemma marshalStructFields_loop:
  "\<forall>(k, v) \<in> set (participating flds).
      \<exists>pv d ds. marshalInputOptionsImpl opts False v = Returned (pv, d)
               \<and> expandDependencies d = Returned ds
   \<Longrightarrow> \<exists>acc'. marshalStructFields opts acc flds = Returned acc'
          \<and> accPmap acc' = objectOf (sparseFields opts flds) (accPmap acc)"
proof (induction flds arbitrary: acc)
  case Nil
  then show ?case by simp
next
  case (Cons f flds)
  obtain tag v where f: "f = (tag, v)" by (cases f)
  show ?case
  proof (cases "tagName tag = []")
    case True
    with Cons f show ?thesis by simp
  next
    case False
    with Cons.prems f obtain pv d ds where
      m: "marshalInputOptionsImpl opts False v = Returned (pv, d)"
      and e: "expandDependencies d = Returned ds"
      by auto
    from Cons.prems f False
    have rest: "\<forall>(k, v) \<in> set (participating flds).
        \<exists>pv d ds. marshalInputOptionsImpl opts False v = Returned (pv, d)
                 \<and> expandDependencies d = Returned ds"
      by simp
    from marshalProperty_step[OF m e, of acc "tagName tag"] obtain acc1 where
      step: "marshalProperty opts acc (tagName tag) v = Returned acc1"
      and pm: "accPmap acc1 = (if \<not> IsNull pv then AList.update (tagName tag) pv (accPmap acc) else accPmap acc)"
      by blast
    from m have mv: "marshaledValue opts v = pv" by (simp add: marshaledValue_def)
    from Cons.IH[OF rest, of acc1] obtain acc' where
      "marshalStructFields opts acc1 flds = Returned acc'"
      "accPmap acc' = objectOf (sparseFields opts flds) (accPmap acc1)"
      by blast
    with f False step pm mv show ?thesis by simp
  qed
qed

text \<open>
  Claim C6. When every field that takes part marshals without error, marshaling a struct
  gives the object built from exactly the fields whose tag has a non-empty segment before the
  first comma, under that segment as key, and whose marshaled value is not Null; its
  dependencies are those of these fields, in order. At the top level, when in addition the
  dependencies of each such field expand without error, the returned property map is built
  in the same way.
\<close>

theorem struct_fields_rule:
  "((\<forall>(k, v) \<in> set (participating flds).
        \<exists>pv d. marshalInputOptionsImpl opts False v = Returned (pv, d))
     \<longrightarrow> marshalInputOptionsImpl opts skip (StructValue True flds)
          = Returned (ObjectProperty (objectOf (sparseFields opts flds) []),
                      concat (map (\<lambda>(k, v). marshaledDeps opts v) (participating flds))))
   \<and> ((\<forall>(k, v) \<in> set (participating flds).
        \<exists>pv d ds. marshalInputOptionsImpl opts False v = Returned (pv, d)
                 \<and> expandDependencies d = Returned ds)
     \<longrightarrow> (\<exists>pdeps urns. marshalInputsOptions (StructProps True flds) opts
                         = Returned (objectOf (sparseFields opts flds) [], pdeps, urns)))"
proof (intro conjI impI)
  assume "\<forall>(k, v) \<in> set (participating flds).
        \<exists>pv d. marshalInputOptionsImpl opts False v = Returned (pv, d)"
  from marshalStruct_loop[OF this, of "[]" "[]"]
  show "marshalInputOptionsImpl opts skip (StructValue True flds)
          = Returned (ObjectProperty (objectOf (sparseFields opts flds) []),
                      concat (map (\<lambda>(k, v). marshaledDeps opts v) (participating flds)))"
    by simp
next
  assume "\<forall>(k, v) \<in> set (participating flds).
        \<exists>pv d ds. marshalInputOptionsImpl opts False v = Returned (pv, d)
                 \<and> expandDependencies d = Returned ds"
  from marshalStructFields_loop[OF this, of emptyAcc] obtain acc' where
    "marshalStructFields opts emptyAcc flds = Returned acc'"
    "accPmap acc' = objectOf (sparseFields opts flds) (accPmap emptyAcc)"
    by blast
  then show "\<exists>pdeps urns. marshalInputsOptions (StructProps True flds) opts
                         = Returned (objectOf (sparseFields opts flds) [], pdeps, urns)"
    by (simp add: finishInputs_def emptyAcc_def)
qed

text \<open>
  The scenarios of the specification: the struct with the nil field gives the empty property
  map, the struct with the string field gives the map of \<open>a\<close> to the string x with no
  dependencies. In a nested struct the flag of a tag is cut off, and the untagged and the Null
  field are left out.
\<close>

theorem struct_fields_rule_witness:
  "marshalInputs (StructProps True structNilA) = Returned ([], [], [])
   \<and> marshalInputs (StructProps True structStringA)
       = Returned ([(''a'', StringProperty ''x'')], [(''a'', [])], [])
   \<and> marshalInputOptionsImpl None False (StructValue True structMixed)
       = Returned (ObjectProperty [(''a'', StringProperty ''x'')], [])"
proof -
  have nilA: "\<exists>pdeps urns. marshalInputsOptions (StructProps True structNilA) None = Returned ([], pdeps, urns)"
    using struct_fields_rule[where flds=structNilA and opts=None and skip=False]
    by (simp add: structNilA_def tagName_def marshaledValue_def)
  have stringA: "\<exists>pdeps urns. marshalInputsOptions (StructProps True structStringA) None
       = Returned ([(''a'', StringProperty ''x'')], pdeps, urns)"
    using struct_fields_rule[where flds=structStringA and opts=None and skip=False]
    by (simp add: structStringA_def tagName_def marshaledValue_def)
  have mixed: "marshalInputOptionsImpl None False (StructValue True structMixed)
       = Returned (ObjectProperty [(''a'', StringProperty ''x'')], [])"
    using struct_fields_rule[where flds=structMixed and opts=None and skip=False]
    by (simp add: structMixed_def tagName_def marshaledValue_def marshaledDeps_def)
  have "marshalInputs (StructProps True structNilA) = Returned ([], [], [])"
    using nilA
    by (simp add: marshalInputs_def structNilA_def tagName_def marshalProperty_def
          marshalInputOptions_def recordProperty_def emptyAcc_def finishInputs_def)
  moreover have "marshalInputs (StructProps True structStringA)
       = Returned ([(''a'', StringProperty ''x'')], [(''a'', [])], [])"
    using stringA
    by (simp add: marshalInputs_def structStringA_def tagName_def marshalProperty_def
          marshalInputOptions_def recordProperty_def emptyAcc_def finishInputs_def)
  ultimately show ?thesis using mixed by simp
qed

lemma assignAll_Nil [simp]: "assignAll [] m = m"
  by (simp add: assignAll_def)

lemma assignAll_Cons [simp]: "assignAll ((k, x) # kvs) m = assignAll kvs (AList.update k x m)"
  by (simp add: assignAll_def)


lemma recordProperties_Nil [simp]: "recordProperties opts acc [] = acc"
  by (simp add: recordProperties_def)

lemma recordProperties_Cons [simp]:
  "recordProperties opts acc ((k, v) # props) =
     recordProperties opts (recordProperty acc k (marshaledValue opts v) (expandedOf opts v)) props"
  by (simp add: recordProperties_def)

lemma storedProperties_Nil [simp]: "storedProperties opts [] = []"
  by (simp add: storedProperties_def)

lemma storedProperties_Cons [simp]:
  "storedProperties opts ((k, v) # props) =
     (if \<not> IsNull (marshaledValue opts v) \<or> expandedOf opts v \<noteq> []
      then (k, v) # storedProperties opts props else storedProperties opts props)"
  by (simp add: storedProperties_def)






text \<open>
  In this code the second half of the condition never decides: a property whose marshaled
  value is Null has an empty expanded dependency set.
\<close>

lemma Null_property_has_no_dependencies:
  "marshalInputOptionsImpl opts False v = Returned (pv, d) \<Longrightarrow> IsNull pv \<Longrightarrow> expandedOf opts v = []"
proof -
  assume m: "marshalInputOptionsImpl opts False v = Returned (pv, d)" and n: "IsNull pv"
  from n have "pv = Null" by (cases pv) simp_all
  with m have "d = []" using marshal_Null_no_deps(1) by blast
  with m show ?thesis by (simp add: expandedOf_def marshaledDeps_def)
qed



section \<open>Resource references\<close>

lemma construct_failures:
  "construct ctor resName resType urn = Failed e \<Longrightarrow> ctor resName resType urn = Failed e"
  by (auto simp: construct_def split: outcome.splits)

text \<open>
  Claim C5. For a reference whose package version is empty (the wildcard version) or parses,
  a lookup that finds no entry gives a dependency placeholder: the provider placeholder for
  a provider reference, and otherwise the custom placeholder when the reference has an ID
  and the component placeholder when it has none. Any error of such a reference is the error
  of a constructor that the lookup found. A non-empty package version that does not parse
  gives the parse error.
\<close>

theorem unmarshalResourceReference_degrades:
  "((packageVersion = [] \<and> version = nullVersion
       \<or> packageVersion \<noteq> [] \<and> ParseTolerant w packageVersion = Some version)
     \<longrightarrow>
       (isProviderType w (urnType w urn)
          \<and> \<not> snd (Load (resourcePackages w) (typeName w (urnType w urn)) version)
        \<longrightarrow> unmarshalResourceReference w urn refID packageVersion
             = Returned (DependencyProviderResource urn (fst (IDString refID))))
     \<and> (\<not> isProviderType w (urnType w urn)
          \<and> \<not> snd (Load (resourceModules w) (typeModule w (urnType w urn)) version)
        \<longrightarrow> unmarshalResourceReference w urn refID packageVersion
             = Returned (if snd (IDString refID)
                         then DependencyCustomResource urn (fst (IDString refID))
                         else DependencyResource urn))
     \<and> (\<forall>e. unmarshalResourceReference w urn refID packageVersion = Failed e
        \<longrightarrow> (\<exists>found. (Load (resourcePackages w) (typeName w (urnType w urn)) version = (Some found, True)
                       \<or> Load (resourceModules w) (typeModule w (urnType w urn)) version = (Some found, True))
                   \<and> payload found (urnName w urn) (urnType w urn) urn = Failed e)))
   \<and> (packageVersion \<noteq> [] \<and> ParseTolerant w packageVersion = None
     \<longrightarrow> unmarshalResourceReference w urn refID packageVersion
          = Failed (FailedToParseProviderVersion packageVersion))"
proof (intro conjI impI)
  assume "packageVersion \<noteq> [] \<and> ParseTolerant w packageVersion = None"
  then show "unmarshalResourceReference w urn refID packageVersion
          = Failed (FailedToParseProviderVersion packageVersion)"
    by (simp add: unmarshalResourceReference_def referencedVersion_def)
next
  assume "packageVersion = [] \<and> version = nullVersion
       \<or> packageVersion \<noteq> [] \<and> ParseTolerant w packageVersion = Some version"
  then have v: "referencedVersion w packageVersion = Returned version"
    by (auto simp: referencedVersion_def)
  {
    assume "isProviderType w (urnType w urn)
          \<and> \<not> snd (Load (resourcePackages w) (typeName w (urnType w urn)) version)"
    then show "unmarshalResourceReference w urn refID packageVersion
             = Returned (DependencyProviderResource urn (fst (IDString refID)))"
      using v
      by (cases "Load (resourcePackages w) (typeName w (urnType w urn)) version")
         (auto simp: unmarshalResourceReference_def Let_def split: option.splits)
  next
    assume "\<not> isProviderType w (urnType w urn)
          \<and> \<not> snd (Load (resourceModules w) (typeModule w (urnType w urn)) version)"
    then show "unmarshalResourceReference w urn refID packageVersion
             = Returned (if snd (IDString refID)
                         then DependencyCustomResource urn (fst (IDString refID))
                         else DependencyResource urn)"
      using v
      by (cases "Load (resourceModules w) (typeModule w (urnType w urn)) version")
         (auto simp: unmarshalResourceReference_def Let_def split: option.splits)
  next
    show "\<forall>e. unmarshalResourceReference w urn refID packageVersion = Failed e
        \<longrightarrow> (\<exists>found. (Load (resourcePackages w) (typeName w (urnType w urn)) version = (Some found, True)
                       \<or> Load (resourceModules w) (typeModule w (urnType w urn)) version = (Some found, True))
                   \<and> payload found (urnName w urn) (urnType w urn) urn = Failed e)"
      using v
      by (cases "Load (resourcePackages w) (typeName w (urnType w urn)) version";
          cases "Load (resourceModules w) (typeModule w (urnType w urn)) version")
         (auto simp: unmarshalResourceReference_def Let_def
            split: option.splits bool.splits if_splits dest: construct_failures)
  }
qed

text \<open>
  Instances in a world without registered constructors: a provider reference, a reference
  with an ID and a parsed version, a reference without an ID, and a malformed version.
\<close>

theorem unmarshalResourceReference_degrades_witness:
  "unmarshalResourceReference bareWorld ''urn:prov'' NoID []
     = Returned (DependencyProviderResource ''urn:prov'' [])
   \<and> unmarshalResourceReference bareWorld ''urn:bucket'' (HasID ''i-1'') ''1.2.0''
     = Returned (DependencyCustomResource ''urn:bucket'' ''i-1'')
   \<and> unmarshalResourceReference bareWorld ''urn:comp'' NoID []
     = Returned (DependencyResource ''urn:comp'')
   \<and> unmarshalResourceReference bareWorld ''urn:comp'' NoID ''one.two''
     = Failed (FailedToParseProviderVersion ''one.two'')"
  using
    unmarshalResourceReference_degrades[where w=bareWorld and urn="''urn:prov''" and refID=NoID
      and packageVersion="[]" and version=nullVersion]
    unmarshalResourceReference_degrades[where w=bareWorld and urn="''urn:bucket''"
      and refID="HasID ''i-1''" and packageVersion="''1.2.0''" and version=v120]
    unmarshalResourceReference_degrades[where w=bareWorld and urn="''urn:comp''" and refID=NoID
      and packageVersion="[]" and version=nullVersion]
    unmarshalResourceReference_degrades[where w=bareWorld and urn="''urn:comp''" and refID=NoID
      and packageVersion="''one.two''" and version=nullVersion]
  by (simp add: bareWorld_def isProviderType_def Load_def versionsAt_def)

section \<open>Unmarshaling Output wire values\<close>

text \<open>
  \<open>unmarshalPropertyValue\<close> returns the secret flag of an Output wire value whenever it
  returns without error, known or not; \<open>unmarshalOutput\<close> does so for a known Output.
\<close>

lemma unmarshalPropertyValue_Output_secret:
  "unmarshalPropertyValue w (OutputProperty element known secret deps) = Returned (x, s)
   \<Longrightarrow> s = secret"
  by (auto split: if_splits outcome.splits)

lemma unmarshalOutput_known_secret:
  "unmarshalOutput w canSet (OutputProperty element True secret deps) dest = Returned s
   \<Longrightarrow> s = secret"
  by (subst (asm) unmarshalOutput.simps) (auto split: if_splits outcome.splits)

text \<open>
  Claim C3 on the code. For an Output wire value that is unknown and secret,
  \<open>unmarshalPropertyValue\<close> returns the secret flag, and \<open>unmarshalOutput\<close> returns false: its
  first check returns for nulls and unknowns before the wire variants are told apart. The
  same function returns true for a secret wire value around a computed one.
\<close>

theorem unmarshalOutput_unknown_secret:
  "unmarshalPropertyValue w (OutputProperty Null False True []) = Returned (UNil, True)
   \<and> unmarshalOutput w True (OutputProperty Null False True []) dest = Returned False
   \<and> unmarshalOutput w True (SecretProperty Computed) dest = Returned True"
  by simp

section \<open>Apply on unknown and rejected Outputs\<close>

text \<open>
  Claim C7. If the Output settles unknown and without error, \<open>Apply\<close> does not invoke the
  callback, and its result awaits to unknown, without error, with the same secret flag and
  the same dependencies. If the Output settles with an error, \<open>Apply\<close> does not invoke the
  callback and its result rejects with the same error.
\<close>

theorem Apply_skips_callback:
  "(\<not> awaitKnown out \<and> awaitError out = None
     \<longrightarrow> snd (Apply out f) = []
       \<and> \<not> awaitKnown (fst (Apply out f))
       \<and> awaitError (fst (Apply out f)) = None
       \<and> awaitSecret (fst (Apply out f)) = awaitSecret out
       \<and> awaitDeps (fst (Apply out f)) = awaitDeps out)
   \<and> (awaitError out = Some err
     \<longrightarrow> snd (Apply out f) = [] \<and> awaitError (fst (Apply out f)) = Some err)"
  by (cases out) simp_all

text \<open>The unknown and the rejected case of \<^verbatim>\<open>TestOutputApply\<close>.\<close>

theorem Apply_skips_callback_witness:
  "snd (Apply (UnknownOutput True {''urn:A''}) addOne) = []
   \<and> \<not> awaitKnown (fst (Apply (UnknownOutput True {''urn:A''}) addOne))
   \<and> awaitSecret (fst (Apply (UnknownOutput True {''urn:A''}) addOne)) = True
   \<and> awaitDeps (fst (Apply (UnknownOutput True {''urn:A''}) addOne)) = {''urn:A''}
   \<and> snd (Apply (RejectedOutput ''boom'') addOne) = []
   \<and> awaitError (fst (Apply (RejectedOutput ''boom'') addOne)) = Some ''boom''"
  using Apply_skips_callback[where out="UnknownOutput True {''urn:A''}" and f=addOne]
    Apply_skips_callback[where out="RejectedOutput ''boom''" and f=addOne and err="''boom''"]
  by simp

end
